theory Spec2Isabelle
  imports Complex_Main
begin

section \<open>The external numeric engine\<close>

text \<open>
  \<^verbatim>\<open>operators.h\<close> forwards every call to the Eigen library.  Eigen is not part of the
  repository, so the kernels the adapter calls are written down here from Eigen's documented
  behaviour on dense dynamic-size objects.  A column vector \<^verbatim>\<open>Matrix<_T, Dynamic, 1>\<close> is
  the list of its coefficients; a dense matrix carries its two dimensions and the list of
  its rows.  The element type \<^verbatim>\<open>_T\<close> is a type variable constrained only by the operators
  a kernel uses, so that a kernel can be read at an exact number type and at a
  floating-point type alike; the square root of the element type is an argument of the
  kernels that need one.  Eigen checks the sizes of the operands of a binary kernel with
  an assertion; the model reports that as \<open>DimensionMismatch\<close>.
\<close>

datatype engine_error = DimensionMismatch

type_synonym 'a eigen_vector = "'a list"

datatype 'a eigen_matrix =
  EigenMatrix (nrows: nat) (ncols: nat) (rowlist: "'a list list")

definition wf_matrix :: "'a eigen_matrix \<Rightarrow> bool" where
  "wf_matrix M \<longleftrightarrow>
     length (rowlist M) = nrows M \<and> list_all (\<lambda>r. length r = ncols M) (rowlist M)"

definition coeff :: "'a eigen_matrix \<Rightarrow> nat \<Rightarrow> nat \<Rightarrow> 'a" where
  "coeff M i j = rowlist M ! i ! j"

definition eig_transpose :: "'a eigen_matrix \<Rightarrow> 'a eigen_matrix" where
  "eig_transpose M =
     EigenMatrix (ncols M) (nrows M)
       (map (\<lambda>j. map (\<lambda>i. coeff M i j) [0..<nrows M]) [0..<ncols M])"

definition eig_vec_transpose :: "'a eigen_vector \<Rightarrow> 'a eigen_matrix" where
  "eig_vec_transpose v = EigenMatrix 1 (length v) [v]"

definition eig_vec_add ::
  "('a::plus) eigen_vector \<Rightarrow> 'a eigen_vector \<Rightarrow> engine_error + 'a eigen_vector" where
  "eig_vec_add a b =
     (if length a = length b then Inr (map2 (+) a b) else Inl DimensionMismatch)"

definition eig_vec_sub ::
  "('a::minus) eigen_vector \<Rightarrow> 'a eigen_vector \<Rightarrow> engine_error + 'a eigen_vector" where
  "eig_vec_sub a b =
     (if length a = length b then Inr (map2 (-) a b) else Inl DimensionMismatch)"

definition eig_cwiseProduct ::
  "('a::times) eigen_vector \<Rightarrow> 'a eigen_vector \<Rightarrow> engine_error + 'a eigen_vector" where
  "eig_cwiseProduct a b =
     (if length a = length b then Inr (map2 (*) a b) else Inl DimensionMismatch)"

definition eig_cwiseQuotient ::
  "('a::inverse) eigen_vector \<Rightarrow> 'a eigen_vector \<Rightarrow> engine_error + 'a eigen_vector" where
  "eig_cwiseQuotient a b =
     (if length a = length b then Inr (map2 (/) a b) else Inl DimensionMismatch)"

definition eig_unaryExpr :: "('a \<Rightarrow> 'a) \<Rightarrow> 'a eigen_vector \<Rightarrow> 'a eigen_vector" where
  "eig_unaryExpr func v = map func v"

definition eig_vec_scale :: "('a::times) eigen_vector \<Rightarrow> 'a \<Rightarrow> 'a eigen_vector" where
  "eig_vec_scale v s = map (\<lambda>x. x * s) v"

definition eig_scale_vec :: "('a::times) \<Rightarrow> 'a eigen_vector \<Rightarrow> 'a eigen_vector" where
  "eig_scale_vec s v = map (\<lambda>x. s * x) v"

definition eig_vec_div :: "('a::inverse) eigen_vector \<Rightarrow> 'a \<Rightarrow> 'a eigen_vector" where
  "eig_vec_div v s = map (\<lambda>x. x / s) v"

text \<open>
  \<^verbatim>\<open>sum()\<close> is a reduction that starts from the first coefficient, and is 0 on an empty
  vector.  The coefficients are added from left to right here; Eigen may add them in
  another order.  The statements below that depend on the sum of more than one rounded
  term are bounds on its rounding error, which hold for every order of the additions and
  are proved for this one.
\<close>

definition eig_sum :: "('a::{plus,zero}) eigen_vector \<Rightarrow> 'a" where
  "eig_sum v = (case v of [] \<Rightarrow> 0 | x # xs \<Rightarrow> foldl (+) x xs)"

definition eig_mat_scale :: "('a::times) eigen_matrix \<Rightarrow> 'a \<Rightarrow> 'a eigen_matrix" where
  "eig_mat_scale M s = EigenMatrix (nrows M) (ncols M) (map (map (\<lambda>x. x * s)) (rowlist M))"

definition eig_scale_mat :: "('a::times) \<Rightarrow> 'a eigen_matrix \<Rightarrow> 'a eigen_matrix" where
  "eig_scale_mat s M = EigenMatrix (nrows M) (ncols M) (map (map (\<lambda>x. s * x)) (rowlist M))"

definition eig_mat_div :: "('a::inverse) eigen_matrix \<Rightarrow> 'a \<Rightarrow> 'a eigen_matrix" where
  "eig_mat_div M s = EigenMatrix (nrows M) (ncols M) (map (map (\<lambda>x. x / s)) (rowlist M))"

definition eig_mat_add ::
  "('a::plus) eigen_matrix \<Rightarrow> 'a eigen_matrix \<Rightarrow> engine_error + 'a eigen_matrix" where
  "eig_mat_add A B =
     (if nrows A = nrows B \<and> ncols A = ncols B
      then Inr (EigenMatrix (nrows A) (ncols A) (map2 (map2 (+)) (rowlist A) (rowlist B)))
      else Inl DimensionMismatch)"

definition eig_mat_sub ::
  "('a::minus) eigen_matrix \<Rightarrow> 'a eigen_matrix \<Rightarrow> engine_error + 'a eigen_matrix" where
  "eig_mat_sub A B =
     (if nrows A = nrows B \<and> ncols A = ncols B
      then Inr (EigenMatrix (nrows A) (ncols A) (map2 (map2 (-)) (rowlist A) (rowlist B)))
      else Inl DimensionMismatch)"

definition eig_mat_vec ::
  "('a::semiring_0) eigen_matrix \<Rightarrow> 'a eigen_vector \<Rightarrow> engine_error + 'a eigen_vector" where
  "eig_mat_vec A v =
     (if ncols A = length v
      then Inr (map (\<lambda>i. \<Sum>k\<leftarrow>[0..<ncols A]. coeff A i k * v ! k) [0..<nrows A])
      else Inl DimensionMismatch)"

definition eig_mat_mat ::
  "('a::semiring_0) eigen_matrix \<Rightarrow> 'a eigen_matrix \<Rightarrow> engine_error + 'a eigen_matrix" where
  "eig_mat_mat A B =
     (if ncols A = nrows B
      then Inr (EigenMatrix (nrows A) (ncols B)
             (map (\<lambda>i. map (\<lambda>j. \<Sum>k\<leftarrow>[0..<ncols A]. coeff A i k * coeff B k j) [0..<ncols B])
                [0..<nrows A]))
      else Inl DimensionMismatch)"

text \<open>
  The product of a row vector (a \<open>1 \<times> n\<close> matrix) with a matrix is a \<open>1 \<times> m\<close> row;
  Eigen transposes it implicitly when it is stored in a column-vector type.
\<close>

definition eig_row_as_vector :: "'a eigen_matrix \<Rightarrow> 'a eigen_vector" where
  "eig_row_as_vector M = map (\<lambda>j. coeff M 0 j) [0..<ncols M]"

text \<open>A \<open>1 \<times> 1\<close> product converts to its only coefficient (\<^verbatim>\<open>static_cast<_T>\<close>).\<close>

definition eig_scalar_of :: "'a eigen_vector \<Rightarrow> 'a" where
  "eig_scalar_of v = v ! 0"

subsection \<open>Norms\<close>

text \<open>
  \<^verbatim>\<open>squaredNorm()\<close> is the sum of the squares of the coefficients, computed in the element
  type; \<^verbatim>\<open>norm()\<close> is its square root, where \<open>sq\<close> is the square root of the element type
  (\<^verbatim>\<open>numext::sqrt\<close>); the norm of a matrix is the Frobenius norm.
\<close>

definition eig_squaredNorm :: "('a::{plus,zero,times}) eigen_vector \<Rightarrow> 'a" where
  "eig_squaredNorm v = eig_sum (map (\<lambda>x. x * x) v)"

definition eig_norm :: "('a \<Rightarrow> 'a) \<Rightarrow> ('a::{plus,zero,times}) eigen_vector \<Rightarrow> 'a" where
  "eig_norm sq v = sq (eig_squaredNorm v)"

definition eig_mat_norm :: "('a \<Rightarrow> 'a) \<Rightarrow> ('a::{plus,zero,times}) eigen_matrix \<Rightarrow> 'a" where
  "eig_mat_norm sq M = sq (eig_squaredNorm (concat (rowlist M)))"

text \<open>Eigen's constant \<^verbatim>\<open>Eigen::Infinity\<close>, the order of the maximum norm.\<close>

definition Infinity :: int where
  "Infinity = - 1"

text \<open>
  \<^verbatim>\<open>lpNorm<p>()\<close> is specialised for three orders: order 1 is the sum of the absolute
  values, order 2 is \<^verbatim>\<open>norm()\<close>, and order \<open>Infinity\<close> is the largest absolute value (0 on
  an empty vector), found by a reduction with \<^verbatim>\<open>(a < b) ? b : a\<close>.
\<close>

definition eig_lpNorm1 :: "('a::{plus,zero,abs}) eigen_vector \<Rightarrow> 'a" where
  "eig_lpNorm1 v = eig_sum (map abs v)"

definition eig_lpNormInf :: "('a::{zero,abs,ord}) eigen_vector \<Rightarrow> 'a" where
  "eig_lpNormInf v =
     (case v of
        [] \<Rightarrow> 0
      | x # xs \<Rightarrow> foldl (\<lambda>a b. if a < b then b else a) \<bar>x\<bar> (map abs xs))"

text \<open>
  The family \<^verbatim>\<open>lpNorm<p>()\<close> at the element type \<open>real\<close>: every other order is
  \<open>(\<Sum> |x|\<^sup>p)\<^sup>1\<^sup>/\<^sup>p\<close>, computed with \<^verbatim>\<open>pow\<close> (\<open>powr\<close> agrees with it on a base that is
  not negative and a positive exponent).
\<close>

definition eig_lpNorm :: "int \<Rightarrow> real eigen_vector \<Rightarrow> real" where
  "eig_lpNorm p v =
     (if p = 1 then eig_lpNorm1 v
      else if p = 2 then eig_norm sqrt v
      else if p = Infinity then eig_lpNormInf v
      else eig_sum (map (\<lambda>x. \<bar>x\<bar> powr real_of_int p) v) powr (1 / real_of_int p))"

text \<open>
  \<^verbatim>\<open>normalize()\<close> computes the squared norm in the element type and, when that is
  positive, divides the vector by its square root in place; otherwise it leaves the
  vector alone.
\<close>

definition eig_normalize ::
  "('a \<Rightarrow> 'a) \<Rightarrow> ('a::{plus,zero,times,inverse,ord}) eigen_vector \<Rightarrow> 'a eigen_vector" where
  "eig_normalize sq v =
     (let z = eig_squaredNorm v in if 0 < z then eig_vec_div v (sq z) else v)"

section \<open>Containers and views\<close>

text \<open>
  Modelled from the spec: \<^verbatim>\<open>vector.h\<close> and \<^verbatim>\<open>matrix.h\<close>, which declare the containers
  \<^verbatim>\<open>vector<_T>\<close> and \<^verbatim>\<open>matrix<_T>\<close> with the member type \<^verbatim>\<open>eigen_type\<close> and the accessor
  \<^verbatim>\<open>eigen()\<close>, are not among the sources.  Following the spec's data model, a container
  holds a sequence (a dense array) of elements, exposes the engine's native representation
  of its contents and can be constructed from a native value.  The containers are types
  of their own, distinct from the engine's native types.
\<close>

datatype 'a vector = Vector (vec_eigen: "'a eigen_vector")

datatype 'a matrix = Matrix (mat_eigen: "'a eigen_matrix")

text \<open>
  Modelled from the spec: the member type \<^verbatim>\<open>map_type\<close> of the two containers, declared in
  the same missing headers.  Following the spec, a view is a non-owning reference that
  describes the shape of a buffer owned elsewhere.  External storage is a memory indexed
  by address; a vector view is a start address and a length, a matrix view a start address
  and two dimensions over column-major storage (Eigen's default order).
\<close>

type_synonym 'a memory = "nat \<Rightarrow> 'a"

datatype vector_map = VectorMap (vec_data: nat) (vec_size: nat)

datatype matrix_map = MatrixMap (mat_data: nat) (mat_rows: nat) (mat_cols: nat)

definition map_vector :: "'a memory \<Rightarrow> vector_map \<Rightarrow> 'a eigen_vector" where
  "map_vector mem m = map mem [vec_data m..<vec_data m + vec_size m]"

definition map_matrix :: "'a memory \<Rightarrow> matrix_map \<Rightarrow> 'a eigen_matrix" where
  "map_matrix mem m =
     EigenMatrix (mat_rows m) (mat_cols m)
       (map (\<lambda>i. map (\<lambda>j. mem (mat_data m + i + j * mat_rows m)) [0..<mat_cols m])
          [0..<mat_rows m])"

section \<open>The adapter layer of \<^verbatim>\<open>operators.h\<close>\<close>

text \<open>
  One definition per function of the source, in the order of the source.  A function that
  takes a view reads it from the memory it is given.  The two stream insertion operators
  only forward to the engine's text output and are left out.  The names \<^verbatim>\<open>transpose\<close>,
  \<^verbatim>\<open>inverse\<close>, \<^verbatim>\<open>norm\<close>, \<^verbatim>\<open>normalize\<close> and \<^verbatim>\<open>sum\<close> are taken in HOL and carry a
  suffix here; an overload with a view carries the position of the view.
\<close>

subsection \<open>Namespace \<^verbatim>\<open>math::eigen\<close>, first part (lines 32 to 96)\<close>

definition transpose_m :: "'a matrix \<Rightarrow> 'a matrix" where
  "transpose_m mat = Matrix (eig_transpose (mat_eigen mat))"

text \<open>
  The engine's inversion kernel stands as a parameter: what it answers on a singular or
  non-square operand is the engine's business.
\<close>

type_synonym 'a inverse_kernel = "'a eigen_matrix \<Rightarrow> engine_error + 'a eigen_matrix"

definition inverse_m :: "'a inverse_kernel \<Rightarrow> 'a matrix \<Rightarrow> engine_error + 'a matrix" where
  "inverse_m engine_inverse mat = map_sum id Matrix (engine_inverse (mat_eigen mat))"

text \<open>
  The template argument \<^verbatim>\<open>_l\<close> of \<^verbatim>\<open>norm<_l>\<close> selects the engine kernel \<^verbatim>\<open>lpNorm<_l>\<close>
  when the program is compiled: the model takes that kernel as its argument \<open>lp\<close>
  (\<open>eig_lpNorm1\<close>, \<open>eig_norm sq\<close> and \<open>eig_lpNormInf\<close> for the orders 1, 2 and \<open>Infinity\<close>).
  The functions that take a square root receive the square root \<open>sq\<close> of the element type.
\<close>

definition norm_l :: "('a eigen_vector \<Rightarrow> 'a) \<Rightarrow> 'a vector \<Rightarrow> 'a" where
  "norm_l lp vec = lp (vec_eigen vec)"

definition norm_v :: "('a \<Rightarrow> 'a) \<Rightarrow> ('a::{plus,zero,times}) vector \<Rightarrow> 'a" where
  "norm_v sq vec = eig_norm sq (vec_eigen vec)"

definition op_div_vec_scalar :: "('a::inverse) vector \<Rightarrow> 'a \<Rightarrow> 'a vector" where
  "op_div_vec_scalar vec scalar = Vector (eig_vec_div (vec_eigen vec) scalar)"

text \<open>
  The two \<^verbatim>\<open>normalize\<close> overloads take \<^verbatim>\<open>vector<_T>&\<close> and return nothing: the model
  returns the new contents of the argument.
\<close>

definition normalize_l :: "('a eigen_vector \<Rightarrow> 'a) \<Rightarrow> ('a::inverse) vector \<Rightarrow> 'a vector" where
  "normalize_l lp vec = op_div_vec_scalar vec (norm_l lp vec)"

definition normalize_v ::
  "('a \<Rightarrow> 'a) \<Rightarrow> ('a::{plus,zero,times,inverse,ord}) vector \<Rightarrow> 'a vector" where
  "normalize_v sq vec = Vector (eig_normalize sq (vec_eigen vec))"

definition norm_m :: "('a \<Rightarrow> 'a) \<Rightarrow> ('a::{plus,zero,times}) matrix \<Rightarrow> 'a" where
  "norm_m sq mat = eig_mat_norm sq (mat_eigen mat)"

definition sum_v :: "('a::{plus,zero}) vector \<Rightarrow> 'a" where
  "sum_v vec = eig_sum (vec_eigen vec)"

subsection \<open>Vector and scalar, inner product (lines 98 to 144)\<close>

definition op_mul_vec_scalar :: "('a::times) vector \<Rightarrow> 'a \<Rightarrow> 'a vector" where
  "op_mul_vec_scalar vec scalar = Vector (eig_vec_scale (vec_eigen vec) scalar)"

definition op_mul_scalar_vec :: "('a::times) \<Rightarrow> 'a vector \<Rightarrow> 'a vector" where
  "op_mul_scalar_vec scalar vec = Vector (eig_scale_vec scalar (vec_eigen vec))"

definition op_mul_vec_vec :: "('a::semiring_0) vector \<Rightarrow> 'a vector \<Rightarrow> engine_error + 'a" where
  "op_mul_vec_vec vecT vec =
     map_sum id eig_scalar_of (eig_mat_vec (eig_vec_transpose (vec_eigen vecT)) (vec_eigen vec))"

definition op_mul_map_vec ::
  "('a::semiring_0) memory \<Rightarrow> vector_map \<Rightarrow> 'a vector \<Rightarrow> engine_error + 'a" where
  "op_mul_map_vec mem vecT vec =
     map_sum id eig_scalar_of
       (eig_mat_vec (eig_vec_transpose (map_vector mem vecT)) (vec_eigen vec))"

definition op_mul_vec_map ::
  "('a::semiring_0) memory \<Rightarrow> 'a vector \<Rightarrow> vector_map \<Rightarrow> engine_error + 'a" where
  "op_mul_vec_map mem vecT vec =
     map_sum id eig_scalar_of
       (eig_mat_vec (eig_vec_transpose (vec_eigen vecT)) (map_vector mem vec))"

subsection \<open>Namespace \<^verbatim>\<open>math::eigen\<close>, second part (lines 146 to 186)\<close>

definition cprod :: "('a::times) vector \<Rightarrow> 'a vector \<Rightarrow> engine_error + 'a vector" where
  "cprod vec1 vec2 = map_sum id Vector (eig_cwiseProduct (vec_eigen vec1) (vec_eigen vec2))"

definition cprod_map_vec ::
  "('a::times) memory \<Rightarrow> vector_map \<Rightarrow> 'a vector \<Rightarrow> engine_error + 'a vector" where
  "cprod_map_vec mem vec1 vec2 =
     map_sum id Vector (eig_cwiseProduct (map_vector mem vec1) (vec_eigen vec2))"

definition cprod_vec_map ::
  "('a::times) memory \<Rightarrow> 'a vector \<Rightarrow> vector_map \<Rightarrow> engine_error + 'a vector" where
  "cprod_vec_map mem vec1 vec2 =
     map_sum id Vector (eig_cwiseProduct (vec_eigen vec1) (map_vector mem vec2))"

definition cdiv :: "('a::inverse) vector \<Rightarrow> 'a vector \<Rightarrow> engine_error + 'a vector" where
  "cdiv vec1 vec2 = map_sum id Vector (eig_cwiseQuotient (vec_eigen vec1) (vec_eigen vec2))"

definition unary :: "'a vector \<Rightarrow> ('a \<Rightarrow> 'a) \<Rightarrow> 'a vector" where
  "unary vec1 func = Vector (eig_unaryExpr func (vec_eigen vec1))"

subsection \<open>Vector addition and compound assignment (lines 188 to 246)\<close>

definition op_add_vec_vec :: "('a::plus) vector \<Rightarrow> 'a vector \<Rightarrow> engine_error + 'a vector" where
  "op_add_vec_vec lhs rhs = map_sum id Vector (eig_vec_add (vec_eigen lhs) (vec_eigen rhs))"

definition op_add_map_vec ::
  "('a::plus) memory \<Rightarrow> vector_map \<Rightarrow> 'a vector \<Rightarrow> engine_error + 'a vector" where
  "op_add_map_vec mem lhs rhs =
     map_sum id Vector (eig_vec_add (map_vector mem lhs) (vec_eigen rhs))"

definition op_add_vec_map ::
  "('a::plus) memory \<Rightarrow> 'a vector \<Rightarrow> vector_map \<Rightarrow> engine_error + 'a vector" where
  "op_add_vec_map mem lhs rhs =
     map_sum id Vector (eig_vec_add (vec_eigen lhs) (map_vector mem rhs))"

text \<open>
  The compound assignments take the left operand as \<^verbatim>\<open>vector<_T>&\<close>, update it through
  \<^verbatim>\<open>lhs.eigen()\<close> and return \<^verbatim>\<open>lhs\<close>: each definition gives the new contents of the left
  operand.  The reference that is returned is modelled with the object store below.
\<close>

definition op_add_assign :: "('a::plus) vector \<Rightarrow> 'a vector \<Rightarrow> engine_error + 'a vector" where
  "op_add_assign lhs rhs = map_sum id Vector (eig_vec_add (vec_eigen lhs) (vec_eigen rhs))"

definition op_sub_assign :: "('a::minus) vector \<Rightarrow> 'a vector \<Rightarrow> engine_error + 'a vector" where
  "op_sub_assign lhs rhs = map_sum id Vector (eig_vec_sub (vec_eigen lhs) (vec_eigen rhs))"

definition op_mul_assign :: "('a::times) vector \<Rightarrow> 'a \<Rightarrow> 'a vector" where
  "op_mul_assign lhs rhs = Vector (eig_vec_scale (vec_eigen lhs) rhs)"

definition op_div_assign :: "('a::inverse) vector \<Rightarrow> 'a \<Rightarrow> 'a vector" where
  "op_div_assign lhs rhs = Vector (eig_vec_div (vec_eigen lhs) rhs)"

subsection \<open>Operators that return the engine's native type (lines 248 to 350)\<close>

definition op_sub_vec_vec ::
  "('a::minus) vector \<Rightarrow> 'a vector \<Rightarrow> engine_error + 'a eigen_vector" where
  "op_sub_vec_vec lhs rhs = eig_vec_sub (vec_eigen lhs) (vec_eigen rhs)"

definition op_sub_map_vec ::
  "('a::minus) memory \<Rightarrow> vector_map \<Rightarrow> 'a vector \<Rightarrow> engine_error + 'a eigen_vector" where
  "op_sub_map_vec mem lhs rhs = eig_vec_sub (map_vector mem lhs) (vec_eigen rhs)"

definition op_sub_vec_map ::
  "('a::minus) memory \<Rightarrow> 'a vector \<Rightarrow> vector_map \<Rightarrow> engine_error + 'a eigen_vector" where
  "op_sub_vec_map mem lhs rhs = eig_vec_sub (vec_eigen lhs) (map_vector mem rhs)"

definition op_mul_mat_scalar :: "('a::times) matrix \<Rightarrow> 'a \<Rightarrow> 'a eigen_matrix" where
  "op_mul_mat_scalar mat scalar = eig_mat_scale (mat_eigen mat) scalar"

definition op_mul_scalar_mat :: "('a::times) \<Rightarrow> 'a matrix \<Rightarrow> 'a eigen_matrix" where
  "op_mul_scalar_mat scalar mat = eig_scale_mat scalar (mat_eigen mat)"

definition op_div_mat_scalar :: "('a::inverse) matrix \<Rightarrow> 'a \<Rightarrow> 'a eigen_matrix" where
  "op_div_mat_scalar mat scalar = eig_mat_div (mat_eigen mat) scalar"

definition op_mul_mat_vec ::
  "('a::semiring_0) matrix \<Rightarrow> 'a vector \<Rightarrow> engine_error + 'a eigen_vector" where
  "op_mul_mat_vec mat vec = eig_mat_vec (mat_eigen mat) (vec_eigen vec)"

definition op_mul_matmap_vec ::
  "('a::semiring_0) memory \<Rightarrow> matrix_map \<Rightarrow> 'a vector \<Rightarrow> engine_error + 'a eigen_vector" where
  "op_mul_matmap_vec mem mat vec = eig_mat_vec (map_matrix mem mat) (vec_eigen vec)"

definition op_mul_mat_map ::
  "('a::semiring_0) memory \<Rightarrow> 'a matrix \<Rightarrow> vector_map \<Rightarrow> engine_error + 'a eigen_vector" where
  "op_mul_mat_map mem mat vec = eig_mat_vec (mat_eigen mat) (map_vector mem vec)"

definition op_mul_vec_mat ::
  "('a::semiring_0) vector \<Rightarrow> 'a matrix \<Rightarrow> engine_error + 'a eigen_vector" where
  "op_mul_vec_mat vecT mat =
     map_sum id eig_row_as_vector
       (eig_mat_mat (eig_vec_transpose (vec_eigen vecT)) (mat_eigen mat))"

definition op_mul_mat_mat ::
  "('a::semiring_0) matrix \<Rightarrow> 'a matrix \<Rightarrow> engine_error + 'a eigen_matrix" where
  "op_mul_mat_mat lhs rhs = eig_mat_mat (mat_eigen lhs) (mat_eigen rhs)"

definition op_add_mat_mat ::
  "('a::plus) matrix \<Rightarrow> 'a matrix \<Rightarrow> engine_error + 'a eigen_matrix" where
  "op_add_mat_mat lhs rhs = eig_mat_add (mat_eigen lhs) (mat_eigen rhs)"

definition op_sub_mat_mat ::
  "('a::minus) matrix \<Rightarrow> 'a matrix \<Rightarrow> engine_error + 'a eigen_matrix" where
  "op_sub_mat_mat lhs rhs = eig_mat_sub (mat_eigen lhs) (mat_eigen rhs)"

section \<open>The overload set\<close>

text \<open>
  A call names a function of the layer and passes operands; the compiler selects the
  overload whose parameter types are the kinds of the operands, and rejects the call when
  there is none.  \<open>call\<close> is that selection over the overloads of the source that return a
  value (one equation per overload, grouped by the name called), at the element type
  \<open>real\<close>: \<open>None\<close> stands for a call that no overload of the layer accepts.  The result
  records whether the overload returns a scalar, a container of the layer, or a value of
  the engine's native type (\<^verbatim>\<open>vector<_T>::eigen_type\<close>, \<^verbatim>\<open>matrix<_T>::eigen_type\<close>).
\<close>

datatype 'a operand =
  Scalar 'a
  | Func "'a \<Rightarrow> 'a"
  | Vec "'a vector"
  | VecMap vector_map
  | Mat "'a matrix"
  | MatMap matrix_map

datatype 'a result =
  ScalarResult 'a
  | VectorResult "'a vector"
  | MatrixResult "'a matrix"
  | EigenVectorResult "'a eigen_vector"
  | EigenMatrixResult "'a eigen_matrix"

datatype fn =
  Transpose | Inverse | NormL int | Norm | Sum | Cprod | Cdiv | Unary
  | Plus | Minus | Times | Divide

type_synonym 'a outcome = "(engine_error + 'a result) option"

fun call1 :: "real inverse_kernel \<Rightarrow> fn \<Rightarrow> real operand \<Rightarrow> real outcome" where
  "call1 K Transpose (Mat mat) = Some (Inr (MatrixResult (transpose_m mat)))"
| "call1 K Inverse (Mat mat) = Some (map_sum id MatrixResult (inverse_m K mat))"
| "call1 K (NormL l) (Vec vec) = Some (Inr (ScalarResult (norm_l (eig_lpNorm l) vec)))"
| "call1 K Norm (Vec vec) = Some (Inr (ScalarResult (norm_v sqrt vec)))"
| "call1 K Norm (Mat mat) = Some (Inr (ScalarResult (norm_m sqrt mat)))"
| "call1 K Sum (Vec vec) = Some (Inr (ScalarResult (sum_v vec)))"
| "call1 K _ _ = None"

fun call_times :: "real memory \<Rightarrow> real operand \<Rightarrow> real operand \<Rightarrow> real outcome" where
  "call_times mem (Vec vec) (Scalar s) = Some (Inr (VectorResult (op_mul_vec_scalar vec s)))"
| "call_times mem (Scalar s) (Vec vec) = Some (Inr (VectorResult (op_mul_scalar_vec s vec)))"
| "call_times mem (Vec vecT) (Vec vec) = Some (map_sum id ScalarResult (op_mul_vec_vec vecT vec))"
| "call_times mem (VecMap vecT) (Vec vec) =
     Some (map_sum id ScalarResult (op_mul_map_vec mem vecT vec))"
| "call_times mem (Vec vecT) (VecMap vec) =
     Some (map_sum id ScalarResult (op_mul_vec_map mem vecT vec))"
| "call_times mem (Mat mat) (Scalar s) = Some (Inr (EigenMatrixResult (op_mul_mat_scalar mat s)))"
| "call_times mem (Scalar s) (Mat mat) = Some (Inr (EigenMatrixResult (op_mul_scalar_mat s mat)))"
| "call_times mem (Mat mat) (Vec vec) =
     Some (map_sum id EigenVectorResult (op_mul_mat_vec mat vec))"
| "call_times mem (MatMap mat) (Vec vec) =
     Some (map_sum id EigenVectorResult (op_mul_matmap_vec mem mat vec))"
| "call_times mem (Mat mat) (VecMap vec) =
     Some (map_sum id EigenVectorResult (op_mul_mat_map mem mat vec))"
| "call_times mem (Vec vecT) (Mat mat) =
     Some (map_sum id EigenVectorResult (op_mul_vec_mat vecT mat))"
| "call_times mem (Mat lhs) (Mat rhs) =
     Some (map_sum id EigenMatrixResult (op_mul_mat_mat lhs rhs))"
| "call_times mem _ _ = None"

fun call_divide :: "real operand \<Rightarrow> real operand \<Rightarrow> real outcome" where
  "call_divide (Vec vec) (Scalar s) = Some (Inr (VectorResult (op_div_vec_scalar vec s)))"
| "call_divide (Mat mat) (Scalar s) = Some (Inr (EigenMatrixResult (op_div_mat_scalar mat s)))"
| "call_divide _ _ = None"

fun call_cprod :: "real memory \<Rightarrow> real operand \<Rightarrow> real operand \<Rightarrow> real outcome" where
  "call_cprod mem (Vec vec1) (Vec vec2) = Some (map_sum id VectorResult (cprod vec1 vec2))"
| "call_cprod mem (VecMap vec1) (Vec vec2) =
     Some (map_sum id VectorResult (cprod_map_vec mem vec1 vec2))"
| "call_cprod mem (Vec vec1) (VecMap vec2) =
     Some (map_sum id VectorResult (cprod_vec_map mem vec1 vec2))"
| "call_cprod mem _ _ = None"

fun call_cdiv :: "real operand \<Rightarrow> real operand \<Rightarrow> real outcome" where
  "call_cdiv (Vec vec1) (Vec vec2) = Some (map_sum id VectorResult (cdiv vec1 vec2))"
| "call_cdiv _ _ = None"

fun call_unary :: "real operand \<Rightarrow> real operand \<Rightarrow> real outcome" where
  "call_unary (Vec vec1) (Func func) = Some (Inr (VectorResult (unary vec1 func)))"
| "call_unary _ _ = None"

fun call_plus :: "real memory \<Rightarrow> real operand \<Rightarrow> real operand \<Rightarrow> real outcome" where
  "call_plus mem (Vec lhs) (Vec rhs) = Some (map_sum id VectorResult (op_add_vec_vec lhs rhs))"
| "call_plus mem (VecMap lhs) (Vec rhs) =
     Some (map_sum id VectorResult (op_add_map_vec mem lhs rhs))"
| "call_plus mem (Vec lhs) (VecMap rhs) =
     Some (map_sum id VectorResult (op_add_vec_map mem lhs rhs))"
| "call_plus mem (Mat lhs) (Mat rhs) =
     Some (map_sum id EigenMatrixResult (op_add_mat_mat lhs rhs))"
| "call_plus mem _ _ = None"

fun call_minus :: "real memory \<Rightarrow> real operand \<Rightarrow> real operand \<Rightarrow> real outcome" where
  "call_minus mem (Vec lhs) (Vec rhs) =
     Some (map_sum id EigenVectorResult (op_sub_vec_vec lhs rhs))"
| "call_minus mem (VecMap lhs) (Vec rhs) =
     Some (map_sum id EigenVectorResult (op_sub_map_vec mem lhs rhs))"
| "call_minus mem (Vec lhs) (VecMap rhs) =
     Some (map_sum id EigenVectorResult (op_sub_vec_map mem lhs rhs))"
| "call_minus mem (Mat lhs) (Mat rhs) =
     Some (map_sum id EigenMatrixResult (op_sub_mat_mat lhs rhs))"
| "call_minus mem _ _ = None"

fun call2 :: "real memory \<Rightarrow> fn \<Rightarrow> real operand \<Rightarrow> real operand \<Rightarrow> real outcome" where
  "call2 mem Cprod x y = call_cprod mem x y"
| "call2 mem Cdiv x y = call_cdiv x y"
| "call2 mem Unary x y = call_unary x y"
| "call2 mem Plus x y = call_plus mem x y"
| "call2 mem Minus x y = call_minus mem x y"
| "call2 mem Times x y = call_times mem x y"
| "call2 mem Divide x y = call_divide x y"
| "call2 mem _ x y = None"

definition call ::
  "real inverse_kernel \<Rightarrow> real memory \<Rightarrow> fn \<Rightarrow> real operand list \<Rightarrow> real outcome" where
  "call K mem f args =
     (case args of
        [x] \<Rightarrow> call1 K f x
      | [x, y] \<Rightarrow> call2 mem f x y
      | _ \<Rightarrow> None)"

section \<open>Objects and references\<close>

text \<open>
  The compound assignments take their left operand by reference and change it.  To say
  what such a call does, the named vectors and matrices of a program live in a state: a
  table of objects by location, next to the external memory the views look at.  An
  argument is a reference to an object, or a value the caller supplies in place (a
  scalar, a function, a view, a temporary).
\<close>

datatype 'a object = VectorObject "'a vector" | MatrixObject "'a matrix"

record 'a state =
  objects :: "nat \<Rightarrow> 'a object option"
  memory :: "'a memory"

datatype 'a argument = Ref nat | Immediate "'a operand"

fun fetch :: "'a state \<Rightarrow> 'a argument \<Rightarrow> 'a operand option" where
  "fetch st (Immediate x) = Some x"
| "fetch st (Ref r) =
     (case objects st r of
        None \<Rightarrow> None
      | Some (VectorObject vec) \<Rightarrow> Some (Vec vec)
      | Some (MatrixObject mat) \<Rightarrow> Some (Mat mat))"

text \<open>
  A compound assignment takes its left operand by non-\<^verbatim>\<open>const\<close> reference, writes the
  new contents into that object and returns the reference it was given.
\<close>

datatype compound = AddAssign | SubAssign | MulAssign | DivAssign

fun compound_assign ::
  "compound \<Rightarrow> ('a::{plus,minus,times,inverse}) vector \<Rightarrow> 'a operand \<Rightarrow>
     (engine_error + 'a vector) option" where
  "compound_assign AddAssign lhs (Vec rhs) = Some (op_add_assign lhs rhs)"
| "compound_assign SubAssign lhs (Vec rhs) = Some (op_sub_assign lhs rhs)"
| "compound_assign MulAssign lhs (Scalar rhs) = Some (Inr (op_mul_assign lhs rhs))"
| "compound_assign DivAssign lhs (Scalar rhs) = Some (Inr (op_div_assign lhs rhs))"
| "compound_assign _ _ _ = None"

definition exec_compound ::
  "('a::{plus,minus,times,inverse}) state \<Rightarrow> compound \<Rightarrow> nat \<Rightarrow> 'a argument \<Rightarrow>
     (engine_error + nat \<times> 'a state) option" where
  "exec_compound st c lhs rhs =
     (case (objects st lhs, fetch st rhs) of
        (Some (VectorObject v), Some x) \<Rightarrow>
          (case compound_assign c v x of
             None \<Rightarrow> None
           | Some (Inl e) \<Rightarrow> Some (Inl e)
           | Some (Inr v') \<Rightarrow>
               Some (Inr (lhs, st\<lparr>objects := (objects st)(lhs \<mapsto> VectorObject v')\<rparr>)))
      | _ \<Rightarrow> None)"

section \<open>A floating-point element type\<close>

text \<open>
  The element type \<^verbatim>\<open>double\<close>, for the statements about a floating-point instance of
  the layer.  This is IEEE 754 binary64 with the default rounding: a double is a finite
  number (with the negative zero apart), an infinity or NaN.  \<open>Fin x\<close> is a double when
  \<open>x\<close> is one of the representable numbers; every operation rounds its result, and the
  statements below hold for every \<open>x\<close>.
\<close>

datatype double = Fin real | NegZero | PInf | NInf | NaN

text \<open>The value of a finite double, and the tests and the sign bit the operations use.\<close>

fun fin_value :: "double \<Rightarrow> real" where
  "fin_value (Fin x) = x"
| "fin_value _ = 0"

fun is_finite :: "double \<Rightarrow> bool" where
  "is_finite (Fin x) = True"
| "is_finite NegZero = True"
| "is_finite _ = False"

fun is_zero :: "double \<Rightarrow> bool" where
  "is_zero (Fin x) = (x = 0)"
| "is_zero NegZero = True"
| "is_zero _ = False"

fun sign_bit :: "double \<Rightarrow> bool" where
  "sign_bit (Fin x) = (x < 0)"
| "sign_bit NegZero = True"
| "sign_bit NInf = True"
| "sign_bit _ = False"

text \<open>
  Rounding to nearest, ties to even.  The spacing of the doubles around \<open>r\<close> is
  \<open>2\<^sup>e\<^sup>-\<^sup>5\<^sup>2\<close> where \<open>2\<^sup>e \<le> |r| < 2\<^sup>e\<^sup>+\<^sup>1\<close>, and \<open>2\<^sup>-\<^sup>1\<^sup>0\<^sup>7\<^sup>4\<close> below the normal range; the nearest
  multiple of the spacing is taken, the even one at a tie.  A result of magnitude
  \<open>2\<^sup>1\<^sup>0\<^sup>2\<^sup>4\<close> or more overflows to an infinity, and a result that rounds to zero keeps
  the sign of the exact value.
\<close>

definition round_half_even :: "real \<Rightarrow> int" where
  "round_half_even y =
     (let f = \<lfloor>y\<rfloor>; d = y - of_int f
      in if d < 1 / 2 then f else if 1 / 2 < d then f + 1 else if even f then f else f + 1)"

definition ulp :: "real \<Rightarrow> real" where
  "ulp r = 2 powr (real_of_int (max \<lfloor>log 2 \<bar>r\<bar>\<rfloor> (- 1022)) - 52)"

definition nearest :: "real \<Rightarrow> real" where
  "nearest r = real_of_int (round_half_even (r / ulp r)) * ulp r"

definition round_double :: "real \<Rightarrow> double" where
  "round_double r =
     (if r = 0 then Fin 0
      else let y = nearest r
        in if 2 powr 1024 \<le> \<bar>y\<bar> then (if r < 0 then NInf else PInf)
           else if y = 0 then (if r < 0 then NegZero else Fin 0)
           else Fin y)"

text \<open>
  The operations of IEEE 754: the exact result of the operation on the values, rounded;
  the special cases for the zeros, the infinities and NaN are written out.
\<close>

definition signed_inf :: "bool \<Rightarrow> double" where
  "signed_inf negative = (if negative then NInf else PInf)"

definition signed_zero :: "bool \<Rightarrow> double" where
  "signed_zero negative = (if negative then NegZero else Fin 0)"

definition double_add :: "double \<Rightarrow> double \<Rightarrow> double" where
  "double_add a b =
     (if a = NaN \<or> b = NaN then NaN
      else if a = PInf then (if b = NInf then NaN else PInf)
      else if a = NInf then (if b = PInf then NaN else NInf)
      else if b = PInf then PInf
      else if b = NInf then NInf
      else let r = fin_value a + fin_value b
        in if r = 0 then signed_zero (a = NegZero \<and> b = NegZero) else round_double r)"

fun double_neg :: "double \<Rightarrow> double" where
  "double_neg (Fin x) = (if x = 0 then NegZero else Fin (- x))"
| "double_neg NegZero = Fin 0"
| "double_neg PInf = NInf"
| "double_neg NInf = PInf"
| "double_neg NaN = NaN"

definition double_mul :: "double \<Rightarrow> double \<Rightarrow> double" where
  "double_mul a b =
     (if a = NaN \<or> b = NaN then NaN
      else if \<not> is_finite a \<or> \<not> is_finite b
        then (if is_zero a \<or> is_zero b then NaN else signed_inf (sign_bit a \<noteq> sign_bit b))
      else if is_zero a \<or> is_zero b then signed_zero (sign_bit a \<noteq> sign_bit b)
      else round_double (fin_value a * fin_value b))"

definition double_div :: "double \<Rightarrow> double \<Rightarrow> double" where
  "double_div a b =
     (if a = NaN \<or> b = NaN then NaN
      else if \<not> is_finite a
        then (if \<not> is_finite b then NaN else signed_inf (sign_bit a \<noteq> sign_bit b))
      else if \<not> is_finite b then signed_zero (sign_bit a \<noteq> sign_bit b)
      else if is_zero b
        then (if is_zero a then NaN else signed_inf (sign_bit a \<noteq> sign_bit b))
      else if is_zero a then signed_zero (sign_bit a \<noteq> sign_bit b)
      else round_double (fin_value a / fin_value b))"

fun double_sqrt :: "double \<Rightarrow> double" where
  "double_sqrt (Fin x) = (if x < 0 then NaN else round_double (sqrt x))"
| "double_sqrt NegZero = NegZero"
| "double_sqrt PInf = PInf"
| "double_sqrt NInf = NaN"
| "double_sqrt NaN = NaN"

fun double_abs :: "double \<Rightarrow> double" where
  "double_abs (Fin x) = Fin \<bar>x\<bar>"
| "double_abs NegZero = Fin 0"
| "double_abs PInf = PInf"
| "double_abs NInf = PInf"
| "double_abs NaN = NaN"

fun double_less :: "double \<Rightarrow> double \<Rightarrow> bool" where
  "double_less NaN _ = False"
| "double_less _ NaN = False"
| "double_less PInf _ = False"
| "double_less _ NInf = False"
| "double_less NInf _ = True"
| "double_less _ PInf = True"
| "double_less a b = (fin_value a < fin_value b)"

fun double_less_eq :: "double \<Rightarrow> double \<Rightarrow> bool" where
  "double_less_eq NaN _ = False"
| "double_less_eq _ NaN = False"
| "double_less_eq NInf _ = True"
| "double_less_eq _ PInf = True"
| "double_less_eq PInf _ = False"
| "double_less_eq _ NInf = False"
| "double_less_eq a b = (fin_value a \<le> fin_value b)"

text \<open>The operators of the element type \<^verbatim>\<open>double\<close>, as the kernels above use them.\<close>

instantiation double :: "{zero, one, plus, uminus, minus, times, inverse, abs, ord}"
begin

definition zero_double :: double where
  "zero_double = Fin 0"

definition one_double :: double where
  "one_double = Fin 1"

definition plus_double :: "double \<Rightarrow> double \<Rightarrow> double" where
  "plus_double a b = double_add a b"

definition uminus_double :: "double \<Rightarrow> double" where
  "uminus_double a = double_neg a"

definition minus_double :: "double \<Rightarrow> double \<Rightarrow> double" where
  "minus_double a b = double_add a (double_neg b)"

definition times_double :: "double \<Rightarrow> double \<Rightarrow> double" where
  "times_double a b = double_mul a b"

definition divide_double :: "double \<Rightarrow> double \<Rightarrow> double" where
  "divide_double a b = double_div a b"

definition inverse_double :: "double \<Rightarrow> double" where
  "inverse_double a = double_div (Fin 1) a"

definition abs_double :: "double \<Rightarrow> double" where
  "abs_double a = double_abs a"

definition less_double :: "double \<Rightarrow> double \<Rightarrow> bool" where
  "less_double a b = double_less a b"

definition less_eq_double :: "double \<Rightarrow> double \<Rightarrow> bool" where
  "less_eq_double a b = double_less_eq a b"

instance ..

end

section \<open>Vocabulary of the statements\<close>

text \<open>A vector is nonzero when one of its coefficients is.\<close>

definition nonzero :: "('a::zero) vector \<Rightarrow> bool" where
  "nonzero v \<longleftrightarrow> list_ex (\<lambda>x. x \<noteq> 0) (vec_eigen v)"

text \<open>
  A result is in the layer's own vocabulary when it is a scalar or one of the two
  containers; the other results are values of the engine's native types.
\<close>

fun is_layer_value :: "'a result \<Rightarrow> bool" where
  "is_layer_value (ScalarResult _) = True"
| "is_layer_value (VectorResult _) = True"
| "is_layer_value (MatrixResult _) = True"
| "is_layer_value (EigenVectorResult _) = False"
| "is_layer_value (EigenMatrixResult _) = False"

fun is_matrix_operand :: "'a operand \<Rightarrow> bool" where
  "is_matrix_operand (Mat _) = True"
| "is_matrix_operand (MatMap _) = True"
| "is_matrix_operand _ = False"

fun is_view :: "'a operand \<Rightarrow> bool" where
  "is_view (VecMap _) = True"
| "is_view (MatMap _) = True"
| "is_view _ = False"

text \<open>The owned container that holds the elements a view refers to.\<close>

fun owned :: "'a memory \<Rightarrow> 'a operand \<Rightarrow> 'a operand" where
  "owned mem (VecMap m) = Vec (Vector (map_vector mem m))"
| "owned mem (MatMap m) = Mat (Matrix (map_matrix mem m))"
| "owned mem x = x"

section \<open>Properties\<close>

subsection \<open>Transposition\<close>

lemma eig_transpose_involution:
  "wf_matrix M \<Longrightarrow> eig_transpose (eig_transpose M) = M"
  by (cases M)
    (auto simp: wf_matrix_def eig_transpose_def coeff_def list_all_iff intro!: nth_equalityI)

text \<open>
  Claim C5.  For every matrix \<open>M\<close> (a dense matrix: as many rows as its row count says,
  each as long as its column count says), \<open>transpose (transpose M)\<close> is \<open>M\<close> itself:
  transposition only reindexes the coefficients and no arithmetic on the elements takes
  place, whatever the element type.
\<close>

theorem transpose_transpose:
  "wf_matrix (mat_eigen M) \<Longrightarrow> transpose_m (transpose_m M) = M"
  by (cases M) (simp add: transpose_m_def eig_transpose_involution)

theorem transpose_transpose_witness:
  "wf_matrix (mat_eigen (Matrix (EigenMatrix 2 3 [[1, 2, 3], [4, 5, 6 :: int]])))
   \<and> transpose_m (Matrix (EigenMatrix 2 3 [[1, 2, 3], [4, 5, 6 :: int]]))
       = Matrix (EigenMatrix 3 2 [[1, 4], [2, 5], [3, 6]])
   \<and> transpose_m (transpose_m (Matrix (EigenMatrix 2 3 [[1, 2, 3], [4, 5, 6 :: int]])))
       = Matrix (EigenMatrix 2 3 [[1, 2, 3], [4, 5, 6]])"
proof -
  have wf: "wf_matrix (mat_eigen (Matrix (EigenMatrix 2 3 [[1, 2, 3], [4, 5, 6 :: int]])))"
    by (simp add: wf_matrix_def)
  have "transpose_m (Matrix (EigenMatrix 2 3 [[1, 2, 3], [4, 5, 6 :: int]]))
      = Matrix (EigenMatrix 3 2 [[1, 4], [2, 5], [3, 6]])"
    by (simp add: transpose_m_def eig_transpose_def coeff_def upt_rec)
  with wf transpose_transpose [OF wf] show ?thesis by simp
qed

subsection \<open>Addition, subtraction and the concrete scenario\<close>

text \<open>
  In an element type whose addition and subtraction form a group (the integers, the
  rationals, the reals), adding \<open>b\<close> and subtracting it again gives back the coefficients of
  \<open>a\<close> exactly.
\<close>

lemma add_then_sub_exact:
  fixes a b :: "('a::group_add) vector"
  shows "length (vec_eigen a) = length (vec_eigen b) \<Longrightarrow>
    (\<exists>s. op_add_vec_vec a b = Inr s \<and> op_sub_vec_vec s b = Inr (vec_eigen a))"
  by (cases a; cases b)
    (auto simp: op_add_vec_vec_def op_sub_vec_vec_def eig_vec_add_def eig_vec_sub_def
      intro!: nth_equalityI)

text \<open>
  Claim C7.  With \<open>a = [1,2,3]\<close> and \<open>b = [4,5,6]\<close>: \<open>a + b = [5,7,9]\<close>, the inner product
  \<open>a * b\<close> is 32, and \<open>cprod(a,b) = [4,10,18]\<close>, in every element type with the usual
  numerals.
\<close>

theorem concrete_scenario:
  "op_add_vec_vec (Vector [1, 2, 3 :: 'a::comm_semiring_1]) (Vector [4, 5, 6])
     = Inr (Vector [5, 7, 9])
   \<and> op_mul_vec_vec (Vector [1, 2, 3 :: 'a]) (Vector [4, 5, 6]) = Inr 32
   \<and> cprod (Vector [1, 2, 3 :: 'a]) (Vector [4, 5, 6]) = Inr (Vector [4, 10, 18])"
  by (simp add: op_add_vec_vec_def op_mul_vec_vec_def cprod_def eig_vec_add_def eig_mat_vec_def
      eig_cwiseProduct_def eig_vec_transpose_def eig_scalar_of_def coeff_def upt_rec)

subsection \<open>Rounding in the floating-point element type\<close>

lemma round_half_even_error: "\<bar>real_of_int (round_half_even y) - y\<bar> \<le> 1 / 2"
  unfolding round_half_even_def Let_def by (auto simp: abs_if) linarith+

lemma round_half_even_of_int: "round_half_even (real_of_int n) = n"
  by (simp add: round_half_even_def)

lemma ulp_pos: "0 < ulp r"
  by (simp add: ulp_def)

lemma nearest_error: "\<bar>nearest r - r\<bar> \<le> ulp r / 2"
proof -
  have "nearest r - r = (real_of_int (round_half_even (r / ulp r)) - r / ulp r) * ulp r"
    using ulp_pos [of r] by (simp add: nearest_def left_diff_distrib)
  then have "\<bar>nearest r - r\<bar> = \<bar>real_of_int (round_half_even (r / ulp r)) - r / ulp r\<bar> * ulp r"
    using ulp_pos [of r] by (simp add: abs_mult)
  also have "\<dots> \<le> 1 / 2 * ulp r"
    using ulp_pos [of r] round_half_even_error [of "r / ulp r"]
    by (intro mult_right_mono) auto
  finally show ?thesis by simp
qed

lemma ulp_bound:
  assumes "r \<noteq> 0"
  shows "ulp r \<le> 2 powr (- 52) * \<bar>r\<bar> \<or> ulp r = 2 powr (- 1074)"
proof (cases "- 1022 \<le> \<lfloor>log 2 \<bar>r\<bar>\<rfloor>")
  case True
  then have "max \<lfloor>log 2 \<bar>r\<bar>\<rfloor> (- 1022) = \<lfloor>log 2 \<bar>r\<bar>\<rfloor>"
    by (rule max_absorb1)
  then have "ulp r = 2 powr (- 52 + real_of_int \<lfloor>log 2 \<bar>r\<bar>\<rfloor>)"
    by (simp only: ulp_def diff_conv_add_uminus add.commute)
  also have "\<dots> = 2 powr (- 52) * 2 powr real_of_int \<lfloor>log 2 \<bar>r\<bar>\<rfloor>"
    by (rule powr_add)
  also have "\<dots> \<le> 2 powr (- 52) * 2 powr log 2 \<bar>r\<bar>"
    by (intro mult_left_mono powr_mono) auto
  also have "2 powr log 2 \<bar>r\<bar> = \<bar>r\<bar>"
    using assms by simp
  finally show ?thesis ..
next
  case False
  then have "max \<lfloor>log 2 \<bar>r\<bar>\<rfloor> (- 1022) = - 1022"
    by (intro max_absorb2) linarith
  then have "ulp r = 2 powr (real_of_int (- 1022) - 52)"
    by (simp only: ulp_def)
  also have "real_of_int (- 1022) - 52 = - 1074"
    by simp
  finally show ?thesis ..
qed

lemma ulp_upper:
  assumes "r \<noteq> 0" "\<bar>r\<bar> < 2 powr 1024"
  shows "ulp r \<le> 2 powr 971"
proof -
  have "log 2 \<bar>r\<bar> < 1024"
    using assms by (simp add: log_less_iff)
  then have "\<lfloor>log 2 \<bar>r\<bar>\<rfloor> \<le> 1023"
    by linarith
  then have "real_of_int (max \<lfloor>log 2 \<bar>r\<bar>\<rfloor> (- 1022)) - 52 \<le> 971"
    by simp
  then show ?thesis
    unfolding ulp_def by (intro powr_mono) auto
qed

lemma two_powr_Suc: "(2::real) powr (x + 1) = 2 * 2 powr x"
  by (simp add: powr_add)

lemma two_powr_52: "(2::real) powr (- 52) = 2 * 2 powr (- 53)"
  using two_powr_Suc [of "- 53"] by simp

lemma two_powr_1074: "(2::real) powr (- 1074) = 2 * 2 powr (- 1075)"
  using two_powr_Suc [of "- 1075"] by simp

lemma two_powr_971: "(2::real) powr 971 = 2 * 2 powr 970"
  using two_powr_Suc [of 970] by simp

lemma round_double_error:
  assumes "\<bar>r\<bar> < 2 powr 1024 - 2 powr 970"
  shows "is_finite (round_double r)
    \<and> \<bar>fin_value (round_double r) - r\<bar> \<le> 2 powr (- 53) * \<bar>r\<bar> + 2 powr (- 1075)"
proof (cases "r = 0")
  case True
  then show ?thesis by (simp add: round_double_def)
next
  case False
  have small: "\<bar>r\<bar> < 2 powr 1024"
    using assms by simp
  have e: "\<bar>nearest r - r\<bar> \<le> ulp r / 2"
    by (rule nearest_error)
  have "ulp r / 2 \<le> 2 powr 970"
    using ulp_upper [OF False small] by (simp only: two_powr_971) (simp)?
  with e assms have fin: "\<bar>nearest r\<bar> < 2 powr 1024"
    by linarith
  from ulp_bound [OF False]
  have "ulp r / 2 \<le> 2 powr (- 53) * \<bar>r\<bar> + 2 powr (- 1075)"
  proof
    assume "ulp r \<le> 2 powr (- 52) * \<bar>r\<bar>"
    then have "ulp r / 2 \<le> 2 powr (- 53) * \<bar>r\<bar>"
      by (simp only: two_powr_52) (simp)?
    then show ?thesis
      by (simp add: add_increasing2)
  next
    assume "ulp r = 2 powr (- 1074)"
    then have "ulp r / 2 = 2 powr (- 1075)"
      by (simp only: two_powr_1074) (simp)?
    then show ?thesis
      by simp
  qed
  with e have err: "\<bar>nearest r - r\<bar> \<le> 2 powr (- 53) * \<bar>r\<bar> + 2 powr (- 1075)"
    by linarith
  have "fin_value (round_double r) = nearest r \<and> is_finite (round_double r)"
    using False fin by (simp add: round_double_def Let_def signed_zero_def)
  with err show ?thesis
    by simp
qed

lemma is_finite_iff: "is_finite a \<longleftrightarrow> a \<noteq> NaN \<and> a \<noteq> PInf \<and> a \<noteq> NInf"
  by (cases a) simp_all

lemma signed_zero_finite: "is_finite (signed_zero s) \<and> fin_value (signed_zero s) = 0"
  by (simp add: signed_zero_def)

lemma double_add_error:
  assumes "is_finite a" "is_finite b"
    and "\<bar>fin_value a + fin_value b\<bar> < 2 powr 1024 - 2 powr 970"
  shows "is_finite (double_add a b)
    \<and> \<bar>fin_value (double_add a b) - (fin_value a + fin_value b)\<bar>
        \<le> 2 powr (- 53) * \<bar>fin_value a + fin_value b\<bar> + 2 powr (- 1075)"
proof (cases "fin_value a + fin_value b = 0")
  case True
  with assms(1,2) [unfolded is_finite_iff] show ?thesis
    by (simp add: double_add_def signed_zero_finite)
next
  case False
  with assms(1,2) [unfolded is_finite_iff]
  have "double_add a b = round_double (fin_value a + fin_value b)"
    by (simp add: double_add_def)
  with round_double_error [OF assms(3)] show ?thesis
    by simp
qed

lemma double_neg_finite:
  "is_finite b \<Longrightarrow> is_finite (double_neg b) \<and> fin_value (double_neg b) = - fin_value b"
  by (cases b) simp_all

lemma two_powr_bounds:
  "(2::real) powr (- 53) \<le> 1" "0 < (2::real) powr (- 53)" "0 < (2::real) powr (- 1075)"
  "(2::real) powr (- 51) = 4 * 2 powr (- 53)" "(2::real) powr (- 1073) = 4 * 2 powr (- 1075)"
  "(2::real) powr 1024 = 2 * 2 powr 1023" "(2::real) powr 1023 = 2 ^ 53 * 2 powr 970"
  "(2::real) powr (- 1075) \<le> 2 powr 970" "(2::real) powr (- 53) * 2 powr 1023 = 2 powr 970"
proof -
  show "(2::real) powr (- 53) \<le> 1"
    using powr_mono [of "- 53" 0 "2::real"] by simp
  show "0 < (2::real) powr (- 53)" "0 < (2::real) powr (- 1075)"
    by simp_all
  show "(2::real) powr (- 51) = 4 * 2 powr (- 53)"
    using powr_add [of "2::real" 2 "- 53"] by simp
  show "(2::real) powr (- 1073) = 4 * 2 powr (- 1075)"
    using powr_add [of "2::real" 2 "- 1075"] by simp
  show "(2::real) powr 1024 = 2 * 2 powr 1023"
    using two_powr_Suc [of 1023] by simp
  show "(2::real) powr 1023 = 2 ^ 53 * 2 powr 970"
    using powr_add [of "2::real" 53 970] by simp
  show "(2::real) powr (- 1075) \<le> 2 powr 970"
    by (intro powr_mono) auto
  show "(2::real) powr (- 53) * 2 powr 1023 = 2 powr 970"
    using powr_add [of "2::real" "- 53" 1023] by simp
qed

lemma add_sub_error:
  assumes fa: "is_finite a" and fb: "is_finite b"
    and bound: "\<bar>fin_value a\<bar> + \<bar>fin_value b\<bar> \<le> 2 powr 1023"
  shows "is_finite (a + b - b)
    \<and> \<bar>fin_value (a + b - b) - fin_value a\<bar>
        \<le> 2 powr (- 51) * (\<bar>fin_value a\<bar> + \<bar>fin_value b\<bar>) + 2 powr (- 1073)"
proof -
  define x y u h where "x = fin_value a" and "y = fin_value b"
    and "u = (2::real) powr (- 53)" and "h = (2::real) powr (- 1075)"
  define B where "B = (2::real) powr 970"
  have u: "0 < u" "u \<le> 1" and h: "0 < h" "h \<le> B" and B: "0 < B"
    unfolding u_def h_def B_def by (simp_all only: two_powr_bounds) simp
  have big1: "(2::real) powr 1023 = 2 ^ 53 * B" and big2: "u * 2 powr 1023 = B"
    unfolding u_def B_def by (rule two_powr_bounds)+
  have big0: "(2::real) powr 1024 - 2 powr 970 = (2 ^ 54 - 1) * B"
    unfolding two_powr_bounds(6) big1 B_def by (simp add: algebra_simps del: powr_numeral)
  have xy: "\<bar>x\<bar> + \<bar>y\<bar> \<le> 2 ^ 53 * B"
    using bound unfolding x_def y_def big1 .
  have "\<bar>x + y\<bar> < (2 ^ 54 - 1) * B"
    using xy B by (simp add: abs_if split: if_splits)
  then have pre1: "\<bar>fin_value a + fin_value b\<bar> < 2 powr 1024 - 2 powr 970"
    unfolding big0 x_def y_def .
  define s where "s = fin_value (double_add a b)"
  from double_add_error [OF fa fb pre1]
  have 1: "is_finite (double_add a b)" "\<bar>s - (x + y)\<bar> \<le> u * \<bar>x + y\<bar> + h"
    unfolding x_def y_def u_def h_def s_def by simp_all
  have nb: "is_finite (double_neg b)" "fin_value (double_neg b) = - y"
    using double_neg_finite [OF fb] by (simp_all add: y_def)
  have "u * \<bar>x + y\<bar> \<le> u * (\<bar>x\<bar> + \<bar>y\<bar>)"
    using u by (intro mult_left_mono) auto
  also have "\<dots> \<le> u * (2 ^ 53 * B)"
    using u xy by (intro mult_left_mono) auto
  also have "\<dots> = B"
    using big2 unfolding big1 .
  finally have uxy: "u * \<bar>x + y\<bar> \<le> B" .
  have d: "\<bar>s - y\<bar> \<le> \<bar>x\<bar> + u * \<bar>x + y\<bar> + h"
    using 1(2) by linarith
  have "\<bar>s - y\<bar> < (2 ^ 54 - 1) * B"
    using d uxy xy h B by simp
  then have pre2: "\<bar>fin_value (double_add a b) + fin_value (double_neg b)\<bar>
      < 2 powr 1024 - 2 powr 970"
    unfolding big0 nb s_def by simp
  define t where "t = fin_value (double_add (double_add a b) (double_neg b))"
  from double_add_error [OF 1(1) nb(1) pre2]
  have 2: "is_finite (double_add (double_add a b) (double_neg b))"
    "\<bar>t - (s - y)\<bar> \<le> u * \<bar>s - y\<bar> + h"
    unfolding nb u_def h_def s_def t_def by simp_all
  have "u * \<bar>s - y\<bar> \<le> u * (\<bar>x\<bar> + u * \<bar>x + y\<bar> + h)"
    using u d by (intro mult_left_mono) auto
  also have "\<dots> = u * \<bar>x\<bar> + u * (u * \<bar>x + y\<bar>) + u * h"
    by (simp add: algebra_simps)
  also have "\<dots> \<le> u * \<bar>x\<bar> + 1 * (u * \<bar>x + y\<bar>) + 1 * h"
    using u h by (intro add_mono mult_right_mono) auto
  finally have 3: "u * \<bar>s - y\<bar> \<le> u * \<bar>x\<bar> + u * \<bar>x + y\<bar> + h"
    by simp
  have 4: "u * \<bar>x + y\<bar> \<le> u * \<bar>x\<bar> + u * \<bar>y\<bar>"
    using u by (simp add: distrib_left [symmetric] mult_left_mono)
  have "\<bar>t - x\<bar> \<le> \<bar>t - (s - y)\<bar> + \<bar>s - (x + y)\<bar>"
    by linarith
  also have "\<dots> \<le> (u * \<bar>s - y\<bar> + h) + (u * \<bar>x + y\<bar> + h)"
    using 1(2) 2(2) by simp
  also have "\<dots> \<le> 4 * u * (\<bar>x\<bar> + \<bar>y\<bar>) + 4 * h"
  proof -
    have "0 \<le> u * \<bar>x\<bar>" "0 \<le> u * \<bar>y\<bar>"
      using u by simp_all
    with 3 4 h show ?thesis
      by (simp add: algebra_simps)
  qed
  finally have "\<bar>t - x\<bar> \<le> 4 * u * (\<bar>x\<bar> + \<bar>y\<bar>) + 4 * h" .
  then have "\<bar>t - x\<bar> \<le> 2 powr (- 51) * (\<bar>x\<bar> + \<bar>y\<bar>) + 2 powr (- 1073)"
    unfolding two_powr_bounds(4,5) u_def h_def by (simp add: algebra_simps)
  with 2(1) show ?thesis
    by (simp add: plus_double_def minus_double_def t_def x_def y_def)
qed

lemma ulp_two_powr:
  "ulp (2 powr real_of_int k) = 2 powr (real_of_int (max k (- 1022)) - 52)"
proof -
  have "log 2 \<bar>2 powr real_of_int k\<bar> = real_of_int k"
    by simp
  then have "\<lfloor>log 2 \<bar>2 powr real_of_int k\<bar>\<rfloor> = k"
    by simp
  then show ?thesis
    by (simp only: ulp_def)
qed

lemma round_half_even_small:
  assumes "0 < x" "x \<le> 1 / 4"
  shows "round_half_even x = 0"
proof -
  have "x < 1"
    using assms by linarith
  with assms have "\<lfloor>x\<rfloor> = 0"
    by (intro floor_unique) simp_all
  moreover have "x < 1 / 2"
    using assms by linarith
  ultimately show ?thesis
    by (simp add: round_half_even_def)
qed

lemma nearest_two_powr:
  assumes "- 1022 \<le> k"
  shows "nearest (2 powr real_of_int k) = 2 powr real_of_int k"
proof -
  let ?r = "(2::real) powr real_of_int k"
  define c :: real where "c = 2 powr 52"
  have c_int: "c = real_of_int (2 ^ 52)"
    unfolding c_def by simp
  have "max k (- 1022) = k"
    using assms by simp
  then have u: "ulp ?r = 2 powr (real_of_int k - 52)"
    by (simp only: ulp_two_powr)
  have "?r / ulp ?r = 2 powr (real_of_int k - (real_of_int k - 52))"
    unfolding u by (rule powr_diff [symmetric])
  also have "\<dots> = c"
    unfolding c_def by simp
  finally have q: "?r / ulp ?r = real_of_int (2 ^ 52)"
    unfolding c_int .
  have "round_half_even (?r / ulp ?r) = 2 ^ 52"
    by (simp only: q round_half_even_of_int)
  then have "nearest ?r = real_of_int (2 ^ 52) * ulp ?r"
    by (simp only: nearest_def)
  also have "\<dots> = c * 2 powr (real_of_int k - 52)"
    by (simp only: c_int u)
  finally have "nearest ?r = c * 2 powr (real_of_int k - 52)" .
  also have "\<dots> = 2 powr (52 + (real_of_int k - 52))"
    unfolding c_def by (rule powr_add [symmetric])
  also have "52 + (real_of_int k - 52) = real_of_int k"
    by simp
  finally show ?thesis .
qed

lemma round_double_two_powr:
  assumes "- 1022 \<le> k" "k \<le> 1023"
  shows "round_double (2 powr real_of_int k) = Fin (2 powr real_of_int k)"
proof -
  let ?r = "(2::real) powr real_of_int k"
  have n: "nearest ?r = ?r"
    using assms(1) by (rule nearest_two_powr)
  have "?r < 2 powr real_of_int 1024"
    using assms by (intro powr_less_mono) auto
  then have "\<not> 2 powr 1024 \<le> \<bar>?r\<bar>"
    by simp
  moreover have "?r \<noteq> 0"
    by simp
  ultimately show ?thesis
    unfolding round_double_def Let_def n by (simp only: if_False)
qed

lemma round_double_overflow:
  assumes "1024 \<le> k"
  shows "round_double (2 powr real_of_int k) = PInf"
proof -
  let ?r = "(2::real) powr real_of_int k"
  have n: "nearest ?r = ?r"
    using assms by (intro nearest_two_powr) simp
  have "2 powr real_of_int 1024 \<le> ?r"
    using assms by (intro powr_mono) auto
  then have "2 powr 1024 \<le> \<bar>?r\<bar>"
    by simp
  moreover have "?r \<noteq> 0" "\<not> ?r < 0"
    by simp_all
  ultimately show ?thesis
    unfolding round_double_def Let_def n by (simp only: if_True if_False)
qed

lemma round_double_underflow:
  assumes "k \<le> - 1076"
  shows "round_double (2 powr real_of_int k) = Fin 0"
proof -
  let ?r = "(2::real) powr real_of_int k"
  have "max k (- 1022) = - 1022"
    using assms by simp
  then have u: "ulp ?r = 2 powr (real_of_int (- 1022) - 52)"
    by (simp only: ulp_two_powr)
  have q: "?r / ulp ?r = 2 powr (real_of_int k - (real_of_int (- 1022) - 52))"
    unfolding u by (rule powr_diff [symmetric])
  have "real_of_int k - (real_of_int (- 1022) - 52) \<le> real_of_int (- 2)"
    using assms by simp
  then have "?r / ulp ?r \<le> 2 powr real_of_int (- 2)"
    unfolding q by (intro powr_mono) auto
  also have "(2::real) powr real_of_int (- 2) = 1 / 4"
    by (simp add: powr_minus)
  finally have le: "?r / ulp ?r \<le> 1 / 4" .
  have pos: "0 < ?r / ulp ?r"
    unfolding q by simp
  from pos le have "round_half_even (?r / ulp ?r) = 0"
    by (rule round_half_even_small)
  then have n: "nearest ?r = 0"
    by (simp only: nearest_def) (simp)?
  have "?r \<noteq> 0" "\<not> ?r < 0" "\<not> 2 powr 1024 \<le> \<bar>0::real\<bar>"
    by simp_all
  then show ?thesis
    unfolding round_double_def Let_def n by (simp only: if_True if_False if_cancel)
qed

lemma double_underflow_example:
  "Fin (2 powr (- 600)) * Fin (2 powr (- 600)) = Fin 0"
  "Fin (2 powr (- 600)) / Fin 0 = PInf"
  "double_sqrt (Fin 0) = Fin 0"
  "\<not> (0::double) < Fin 0"
proof -
  have "(2::real) powr (- 600) * 2 powr (- 600) = 2 powr real_of_int (- 1200)"
    by (simp flip: powr_add)
  then show "Fin (2 powr (- 600)) * Fin (2 powr (- 600)) = Fin 0"
    using round_double_underflow [of "- 1200"]
    by (simp add: times_double_def double_mul_def)
  show "Fin (2 powr (- 600)) / Fin 0 = PInf"
    by (simp add: divide_double_def double_div_def signed_inf_def)
  show "double_sqrt (Fin 0) = Fin 0"
    by (simp add: round_double_def)
  show "\<not> (0::double) < Fin 0"
    by (simp add: less_double_def zero_double_def)
qed

lemma double_overflow_example:
  "Fin (2 powr 1023) + Fin (2 powr 1023) = PInf"
  "PInf - Fin (2 powr 1023) = PInf"
proof -
  have "(2::real) powr 1023 + 2 powr 1023 = 2 powr real_of_int 1024"
    using two_powr_Suc [of 1023] by simp
  then show "Fin (2 powr 1023) + Fin (2 powr 1023) = PInf"
    using round_double_overflow [of 1024]
    by (simp add: plus_double_def double_add_def)
  show "PInf - Fin (2 powr 1023) = PInf"
    by (simp add: minus_double_def double_add_def)
qed

lemma round_double_small: "round_double 1 = Fin 1" "round_double 2 = Fin 2" "round_double 4 = Fin 4"
  using round_double_two_powr [of 0] round_double_two_powr [of 1] round_double_two_powr [of 2]
  by simp_all

lemma double_small_examples:
  "Fin 1 + Fin 1 = Fin 2" "Fin 2 - Fin 1 = Fin 1" "Fin 2 * Fin 2 = Fin 4"
  "double_sqrt (Fin 4) = Fin 2" "Fin 2 / Fin 2 = Fin 1" "(0::double) < Fin 4"
  by (simp_all add: plus_double_def minus_double_def times_double_def divide_double_def
      double_add_def double_mul_def double_div_def round_double_small less_double_def
      zero_double_def)

text \<open>
  Claim C6, as amended.  For vectors \<open>a\<close> and \<open>b\<close> of equal length over \<^verbatim>\<open>double\<close> whose
  coefficients are finite with \<open>|a\<^sub>i| + |b\<^sub>i| \<le> 2\<^sup>1\<^sup>0\<^sup>2\<^sup>3\<close> (so that no sum overflows),
  \<open>a + b\<close> is a vector and \<open>(a + b) - b\<close> is a vector of finite numbers of the same length,
  whose coefficient \<open>i\<close> differs from \<open>a\<^sub>i\<close> by at most
  \<open>2\<^sup>-\<^sup>5\<^sup>1 (|a\<^sub>i| + |b\<^sub>i|) + 2\<^sup>-\<^sup>1\<^sup>0\<^sup>7\<^sup>3\<close>.
\<close>

theorem add_then_sub_double:
  fixes a b :: "double vector"
  assumes len: "length (vec_eigen a) = length (vec_eigen b)"
    and fin: "\<forall>i<length (vec_eigen a).
      is_finite (vec_eigen a ! i) \<and> is_finite (vec_eigen b ! i)
      \<and> \<bar>fin_value (vec_eigen a ! i)\<bar> + \<bar>fin_value (vec_eigen b ! i)\<bar> \<le> 2 powr 1023"
  shows "\<exists>s r. op_add_vec_vec a b = Inr s \<and> op_sub_vec_vec s b = Inr r
    \<and> length r = length (vec_eigen a)
    \<and> (\<forall>i<length r. is_finite (r ! i)
        \<and> \<bar>fin_value (r ! i) - fin_value (vec_eigen a ! i)\<bar>
            \<le> 2 powr (- 51) * (\<bar>fin_value (vec_eigen a ! i)\<bar> + \<bar>fin_value (vec_eigen b ! i)\<bar>)
              + 2 powr (- 1073))"
proof -
  define xs ys where "xs = vec_eigen a" and "ys = vec_eigen b"
  define r where "r = map2 (-) (map2 (+) xs ys) ys"
  have l: "length xs = length ys"
    using len by (simp add: xs_def ys_def)
  have s: "op_add_vec_vec a b = Inr (Vector (map2 (+) xs ys))"
    using l by (simp add: op_add_vec_vec_def eig_vec_add_def xs_def ys_def)
  have d: "op_sub_vec_vec (Vector (map2 (+) xs ys)) b = Inr r"
    using l by (simp add: op_sub_vec_vec_def eig_vec_sub_def r_def ys_def)
  have lr: "length r = length xs"
    using l by (simp add: r_def)
  have "is_finite (r ! i)
      \<and> \<bar>fin_value (r ! i) - fin_value (xs ! i)\<bar>
          \<le> 2 powr (- 51) * (\<bar>fin_value (xs ! i)\<bar> + \<bar>fin_value (ys ! i)\<bar>) + 2 powr (- 1073)"
    if "i < length r" for i
  proof -
    have i: "i < length xs" "i < length ys"
      using that lr l by simp_all
    then have ri: "r ! i = xs ! i + ys ! i - ys ! i"
      by (simp add: r_def)
    from fin i have "is_finite (xs ! i)" "is_finite (ys ! i)"
      "\<bar>fin_value (xs ! i)\<bar> + \<bar>fin_value (ys ! i)\<bar> \<le> 2 powr 1023"
      unfolding xs_def ys_def by blast+
    then show ?thesis
      unfolding ri by (rule add_sub_error)
  qed
  with s d lr show ?thesis
    unfolding xs_def ys_def by blast
qed

theorem add_then_sub_double_witness:
  "length (vec_eigen (Vector [Fin 1])) = length (vec_eigen (Vector [Fin 1]))
   \<and> is_finite (Fin 1) \<and> \<bar>fin_value (Fin 1)\<bar> + \<bar>fin_value (Fin 1)\<bar> \<le> 2 powr 1023
   \<and> op_add_vec_vec (Vector [Fin 1]) (Vector [Fin 1]) = Inr (Vector [Fin 2])
   \<and> op_sub_vec_vec (Vector [Fin 2]) (Vector [Fin 1]) = Inr [Fin 1]
   \<and> \<bar>fin_value (Fin 1) - fin_value (Fin 1)\<bar>
        \<le> 2 powr (- 51) * (\<bar>fin_value (Fin 1)\<bar> + \<bar>fin_value (Fin 1)\<bar>) + 2 powr (- 1073)"
proof -
  have len: "length (vec_eigen (Vector [Fin 1])) = length (vec_eigen (Vector [Fin 1]))"
    by simp
  have fin: "\<forall>i<length (vec_eigen (Vector [Fin 1])).
      is_finite (vec_eigen (Vector [Fin 1]) ! i) \<and> is_finite (vec_eigen (Vector [Fin 1]) ! i)
      \<and> \<bar>fin_value (vec_eigen (Vector [Fin 1]) ! i)\<bar> + \<bar>fin_value (vec_eigen (Vector [Fin 1]) ! i)\<bar>
          \<le> 2 powr 1023"
    by simp
  have e: "op_add_vec_vec (Vector [Fin 1]) (Vector [Fin 1]) = Inr (Vector [Fin 2])"
    "op_sub_vec_vec (Vector [Fin 2]) (Vector [Fin 1]) = Inr [Fin 1]"
    by (simp_all add: op_add_vec_vec_def op_sub_vec_vec_def eig_vec_add_def eig_vec_sub_def
        double_small_examples)
  from add_then_sub_double [OF len fin] e show ?thesis
    by simp
qed

text \<open>
  When the sum overflows, the difference is an infinity, which is within no tolerance of
  a finite number: \<open>2\<^sup>1\<^sup>0\<^sup>2\<^sup>3\<close> is a double, and
  \<open>(2\<^sup>1\<^sup>0\<^sup>2\<^sup>3 + 2\<^sup>1\<^sup>0\<^sup>2\<^sup>3) - 2\<^sup>1\<^sup>0\<^sup>2\<^sup>3\<close> is \<open>+\<infinity>\<close>.
\<close>

theorem add_then_sub_counterexample:
  "is_finite (Fin (2 powr 1023))
   \<and> op_add_vec_vec (Vector [Fin (2 powr 1023)]) (Vector [Fin (2 powr 1023)])
       = Inr (Vector [PInf])
   \<and> op_sub_vec_vec (Vector [PInf]) (Vector [Fin (2 powr 1023)]) = Inr [PInf]"
  using double_overflow_example
  by (simp add: op_add_vec_vec_def op_sub_vec_vec_def eig_vec_add_def eig_vec_sub_def)

text \<open>
  The bound on \<open>|a\<^sub>i| + |b\<^sub>i|\<close> is there for the difference as well as for the sum.  With
  the largest double \<open>2\<^sup>1\<^sup>0\<^sup>2\<^sup>4 - 2\<^sup>9\<^sup>7\<^sup>1\<close> for \<open>a\<close> and
  \<open>- 3 * 2\<^sup>9\<^sup>7\<^sup>0\<close> for \<open>b\<close>, the sum is halfway between two doubles and rounds to the
  finite \<open>2\<^sup>1\<^sup>0\<^sup>2\<^sup>4 - 2\<^sup>9\<^sup>7\<^sup>2\<close>; subtracting \<open>b\<close> again gives a number halfway between
  the largest double and \<open>2\<^sup>1\<^sup>0\<^sup>2\<^sup>4\<close>, which rounds to \<open>+\<infinity>\<close>.
\<close>

lemma ulp_top:
  assumes "2 ^ 1023 \<le> \<bar>r\<bar>" "\<bar>r\<bar> < 2 ^ 1024"
  shows "ulp r = 2 ^ 971"
proof -
  have "2 powr real_of_int 1023 \<le> \<bar>r\<bar> \<and> \<bar>r\<bar> < 2 powr (real_of_int 1023 + 1)"
    using assms by simp
  moreover have "(0::real) < 2 ^ 1023"
    by simp
  with assms(1) have "0 < \<bar>r\<bar>"
    by linarith
  ultimately have "\<lfloor>log 2 \<bar>r\<bar>\<rfloor> = 1023"
    by (subst floor_log_eq_powr_iff) simp_all
  then show ?thesis
    by (simp add: ulp_def)
qed

lemma add_then_sub_tie_example:
  "Fin (2 ^ 1024 - 2 ^ 971) + Fin (- (3 * 2 ^ 970)) = Fin (2 ^ 1024 - 2 ^ 972)"
  "Fin (2 ^ 1024 - 2 ^ 972) - Fin (- (3 * 2 ^ 970)) = PInf"
proof -
  have u1: "ulp (2 ^ 1024 - 2 ^ 971 + - (3 * 2 ^ 970)) = 2 ^ 971"
    by (rule ulp_top) simp_all
  have h1: "round_half_even ((2 ^ 1024 - 2 ^ 971 + - (3 * 2 ^ 970)) / 2 ^ 971) = 2 ^ 53 - 2"
    by (simp add: round_half_even_def)
  have n1: "nearest (2 ^ 1024 - 2 ^ 971 + - (3 * 2 ^ 970)) = 2 ^ 1024 - 2 ^ 972"
    unfolding nearest_def u1 h1 by simp
  show "Fin (2 ^ 1024 - 2 ^ 971) + Fin (- (3 * 2 ^ 970)) = Fin (2 ^ 1024 - 2 ^ 972)"
    unfolding plus_double_def double_add_def round_double_def Let_def
    using n1 by simp
  have u2: "ulp (2 ^ 1024 - 2 ^ 972 + 3 * 2 ^ 970) = 2 ^ 971"
    by (rule ulp_top) simp_all
  have h2: "round_half_even ((2 ^ 1024 - 2 ^ 972 + 3 * 2 ^ 970) / 2 ^ 971) = 2 ^ 53"
    by (simp add: round_half_even_def)
  have n2: "nearest (2 ^ 1024 - 2 ^ 972 + 3 * 2 ^ 970) = 2 ^ 1024"
    unfolding nearest_def u2 h2 by simp
  show "Fin (2 ^ 1024 - 2 ^ 972) - Fin (- (3 * 2 ^ 970)) = PInf"
    unfolding minus_double_def double_add_def round_double_def Let_def
    using n2 by simp
qed

text \<open>
  The tolerance is relative to the size of both operands and not to that of \<open>a\<close> alone:
  \<open>1 + 2\<^sup>6\<^sup>0\<close> rounds to \<open>2\<^sup>6\<^sup>0\<close>, so that \<open>(1 + 2\<^sup>6\<^sup>0) - 2\<^sup>6\<^sup>0\<close> is 0 at \<^verbatim>\<open>double\<close>.
\<close>

lemma ulp_60:
  assumes "2 ^ 60 \<le> \<bar>r\<bar>" "\<bar>r\<bar> < 2 ^ 61"
  shows "ulp r = 2 ^ 8"
proof -
  have "2 powr real_of_int 60 \<le> \<bar>r\<bar> \<and> \<bar>r\<bar> < 2 powr (real_of_int 60 + 1)"
    using assms by simp
  moreover have "(0::real) < 2 ^ 60"
    by simp
  with assms(1) have "0 < \<bar>r\<bar>"
    by linarith
  ultimately have "\<lfloor>log 2 \<bar>r\<bar>\<rfloor> = 60"
    by (subst floor_log_eq_powr_iff) simp_all
  then show ?thesis
    by (simp add: ulp_def)
qed

lemma add_then_sub_absorption_example:
  "Fin 1 + Fin (2 ^ 60) = Fin (2 ^ 60)"
  "Fin (2 ^ 60) - Fin (2 ^ 60) = Fin 0"
proof -
  have u: "ulp (1 + 2 ^ 60) = 2 ^ 8"
    by (rule ulp_60) simp_all
  have h: "round_half_even ((1 + 2 ^ 60) / 2 ^ 8) = 2 ^ 52"
    by (simp add: round_half_even_def)
  have n: "nearest (1 + 2 ^ 60) = 2 ^ 60"
    unfolding nearest_def u h by simp
  show "Fin 1 + Fin (2 ^ 60) = Fin (2 ^ 60)"
    unfolding plus_double_def double_add_def round_double_def Let_def
    using n by simp
  show "Fin (2 ^ 60) - Fin (2 ^ 60) = Fin 0"
    by (simp add: minus_double_def double_add_def signed_zero_def)
qed

subsection \<open>Norms and normalisation\<close>

text \<open>
  Claim C10, as amended.  For every vector \<open>v\<close> whose squared norm, as the engine computes
  it in the element type, is positive, the overload of \<open>normalize\<close> with norm order 2 (which
  assigns \<open>v / norm<2>(v)\<close> back to \<open>v\<close>, where \<^verbatim>\<open>lpNorm<2>\<close> is \<^verbatim>\<open>norm()\<close>) and the default
  overload (the engine's in-place \<open>normalize\<close>) leave \<open>v\<close> in the same state, whatever the
  element type and its square root.
\<close>

theorem normalize_order2_is_default:
  fixes v :: "('a::{plus,zero,times,inverse,ord}) vector"
  shows "0 < eig_squaredNorm (vec_eigen v) \<Longrightarrow> normalize_l (eig_norm sq) v = normalize_v sq v"
  by (simp add: normalize_l_def normalize_v_def norm_l_def op_div_vec_scalar_def
      eig_normalize_def eig_norm_def Let_def)

theorem normalize_order2_is_default_witness:
  "0 < eig_squaredNorm (vec_eigen (Vector [Fin 2]))
   \<and> normalize_l (eig_norm double_sqrt) (Vector [Fin 2]) = Vector [Fin 1]
   \<and> normalize_v double_sqrt (Vector [Fin 2]) = Vector [Fin 1]"
proof -
  have z: "0 < eig_squaredNorm (vec_eigen (Vector [Fin 2]))"
    by (simp add: eig_squaredNorm_def eig_sum_def double_small_examples)
  have "normalize_v double_sqrt (Vector [Fin 2]) = Vector [Fin 1]"
    by (simp add: normalize_v_def eig_normalize_def eig_squaredNorm_def eig_sum_def
        eig_vec_div_def double_small_examples round_double_small)
  with z normalize_order2_is_default [OF z, of double_sqrt] show ?thesis
    by simp
qed

text \<open>
  The two overloads part on a nonzero vector whose squared norm is not positive in the
  element type.  At \<^verbatim>\<open>double\<close>, \<open>2\<^sup>-\<^sup>6\<^sup>0\<^sup>0\<close> is a double and its square underflows to 0: the
  default overload leaves the vector \<open>[2\<^sup>-\<^sup>6\<^sup>0\<^sup>0]\<close> as it is, and the overload of order 2
  divides it by the norm 0 and stores \<open>+\<infinity>\<close>.
\<close>

theorem normalize_order2_counterexample:
  "nonzero (Vector [Fin (2 powr (- 600))])
   \<and> normalize_v double_sqrt (Vector [Fin (2 powr (- 600))]) = Vector [Fin (2 powr (- 600))]
   \<and> normalize_l (eig_norm double_sqrt) (Vector [Fin (2 powr (- 600))]) = Vector [PInf]"
  using double_underflow_example
  by (simp add: nonzero_def zero_double_def normalize_v_def normalize_l_def norm_l_def
      op_div_vec_scalar_def eig_normalize_def eig_norm_def eig_squaredNorm_def eig_sum_def
      eig_vec_div_def)
























text \<open>
  When the squared norm overflows, the default overload divides by an infinity: it turns
  \<open>[2\<^sup>6\<^sup>0\<^sup>0, 2\<^sup>6\<^sup>0\<^sup>0]\<close> into the zero vector.
\<close>

lemma normalize_overflow_example:
  "normalize_v double_sqrt (Vector [Fin (2 powr 600), Fin (2 powr 600)]) = Vector [Fin 0, Fin 0]
   \<and> norm_v double_sqrt (Vector [Fin 0, Fin 0]) = Fin 0"
proof -
  have "(2::real) powr 600 * 2 powr 600 = 2 powr real_of_int 1200"
    by (simp flip: powr_add)
  then have sq: "Fin (2 powr 600) * Fin (2 powr 600) = PInf"
    using round_double_overflow [of 1200]
    by (simp add: times_double_def double_mul_def)
  have e: "PInf + PInf = PInf" "(0::double) < PInf" "Fin (2 powr 600) / PInf = Fin 0"
    "Fin 0 * Fin 0 = Fin 0" "Fin 0 + Fin 0 = Fin 0"
    by (simp_all add: plus_double_def double_add_def less_double_def zero_double_def
        divide_double_def double_div_def times_double_def double_mul_def signed_zero_def)
  show ?thesis
    using sq e
    by (simp add: normalize_v_def norm_v_def eig_normalize_def eig_norm_def
        eig_squaredNorm_def eig_sum_def eig_vec_div_def round_double_def)
qed
subsection \<open>Result types\<close>

lemma call1_kind: "call1 K f x = Some (Inr r) \<Longrightarrow> is_layer_value r"
  by (induction K f x rule: call1.induct) (auto split: sum.splits simp: map_sum_def)

lemma call1_names: "call1 K f x = Some r \<Longrightarrow> f \<notin> {Minus, Plus, Times, Divide}"
  by (induction K f x rule: call1.induct) auto

lemma call2_kind:
  "call2 mem f x y = Some (Inr r) \<Longrightarrow>
    is_layer_value r \<longleftrightarrow>
      \<not> (f = Minus \<or> f \<in> {Plus, Times, Divide} \<and> (is_matrix_operand x \<or> is_matrix_operand y))"
  apply (cases f; simp)
        apply (induction mem x y rule: call_cprod.induct; auto split: sum.splits simp: map_sum_def)
       apply (induction x y rule: call_cdiv.induct; auto split: sum.splits simp: map_sum_def)
      apply (induction x y rule: call_unary.induct; auto split: sum.splits simp: map_sum_def)
     apply (induction mem x y rule: call_plus.induct; auto split: sum.splits simp: map_sum_def)
    apply (induction mem x y rule: call_minus.induct; auto split: sum.splits simp: map_sum_def)
   apply (induction mem x y rule: call_times.induct; auto split: sum.splits simp: map_sum_def)
  apply (induction x y rule: call_divide.induct; auto split: sum.splits simp: map_sum_def)
  done

text \<open>
  Claim C2, as amended.  Every value-returning operation of the layer returns a new value
  that is a scalar, a vector container or a matrix container, except vector subtraction and
  the operators \<open>+\<close>, \<open>*\<close>, \<open>/\<close> with a matrix operand (matrix with matrix, matrix with
  vector, matrix with scalar), which return a value of the engine's native vector or
  matrix type.
\<close>

theorem result_kinds:
  "call K mem f args = Some (Inr r) \<Longrightarrow>
     is_layer_value r \<longleftrightarrow>
       \<not> (f = Minus \<or> f \<in> {Plus, Times, Divide} \<and> list_ex is_matrix_operand args)"
  unfolding call_def
  by (auto split: list.splits dest: call1_kind call2_kind call1_names)

theorem result_kinds_witness:
  "call Inr of_nat Plus [Vec (Vector [3, 5]), Vec (Vector [1, 2])]
     = Some (Inr (VectorResult (Vector [4, 7])))
   \<and> is_layer_value (VectorResult (Vector [4, 7 :: real]))
   \<and> \<not> list_ex is_matrix_operand [Vec (Vector [3, 5]), Vec (Vector [1, 2 :: real])]"
proof -
  have c: "call Inr of_nat Plus [Vec (Vector [3, 5]), Vec (Vector [1, 2])]
     = Some (Inr (VectorResult (Vector [4, 7])))"
    by (simp add: call_def op_add_vec_vec_def eig_vec_add_def)
  from result_kinds [OF c] c show ?thesis
    by simp
qed

text \<open>
  Vector subtraction and matrix addition are declared to return \<^verbatim>\<open>eigen_type\<close>: their
  results are native values of the engine, not containers of the layer.
\<close>

theorem result_kinds_counterexample:
  "call Inr of_nat Minus [Vec (Vector [3, 5]), Vec (Vector [1, 2])]
     = Some (Inr (EigenVectorResult [2, 3]))
   \<and> \<not> is_layer_value (EigenVectorResult [2, 3 :: real])
   \<and> call Inr of_nat Plus
       [Mat (Matrix (EigenMatrix 1 2 [[1, 2]])), Mat (Matrix (EigenMatrix 1 2 [[3, 4]]))]
     = Some (Inr (EigenMatrixResult (EigenMatrix 1 2 [[4, 6]])))
   \<and> \<not> is_layer_value (EigenMatrixResult (EigenMatrix 1 2 [[4, 6 :: real]]))"
  by (simp add: call_def op_sub_vec_vec_def eig_vec_sub_def op_add_mat_mat_def eig_mat_add_def)

subsection \<open>Overloads with views\<close>

lemma call1_view: "is_view x \<Longrightarrow> call1 K f x = None"
  by (induction K f x rule: call1.induct) auto

lemma call2_view:
  "is_view x \<or> is_view y \<Longrightarrow>
    call2 mem f x y \<noteq> None \<longleftrightarrow>
      (f \<in> {Cprod, Plus, Minus, Times}
        \<and> (\<exists>m v. (x = VecMap m \<and> y = Vec v) \<or> (x = Vec v \<and> y = VecMap m)))
      \<or> (f = Times
        \<and> ((\<exists>m v. x = MatMap m \<and> y = Vec v) \<or> (\<exists>M m. x = Mat M \<and> y = VecMap m)))"
  apply (cases f; simp)
        apply (induction mem x y rule: call_cprod.induct; simp)
       apply (induction x y rule: call_cdiv.induct; simp)
      apply (induction x y rule: call_unary.induct; simp)
     apply (induction mem x y rule: call_plus.induct; simp)
    apply (induction mem x y rule: call_minus.induct; simp)
   apply (induction mem x y rule: call_times.induct; simp)
  apply (induction x y rule: call_divide.induct; simp)
  done

lemma call2_owned:
  "call2 mem f x y \<noteq> None \<Longrightarrow> call2 mem f (owned mem x) (owned mem y) = call2 mem f x y"
  apply (cases f; simp)
        apply (induction mem x y rule: call_cprod.induct;
          simp add: cprod_def cprod_map_vec_def cprod_vec_map_def)
       apply (induction x y rule: call_cdiv.induct; simp)
      apply (induction x y rule: call_unary.induct; simp)
     apply (induction mem x y rule: call_plus.induct;
          simp add: op_add_vec_vec_def op_add_map_vec_def op_add_vec_map_def)
    apply (induction mem x y rule: call_minus.induct;
          simp add: op_sub_vec_vec_def op_sub_map_vec_def op_sub_vec_map_def)
   apply (induction mem x y rule: call_times.induct;
          simp add: op_mul_vec_vec_def op_mul_map_vec_def op_mul_vec_map_def
            op_mul_mat_vec_def op_mul_matmap_vec_def op_mul_mat_map_def)
  apply (induction x y rule: call_divide.induct; simp)
  done

lemma call_owned:
  "call K mem f args \<noteq> None \<Longrightarrow> call K mem f (map (owned mem) args) = call K mem f args"
proof (cases args)
  case Nil
  then show ?thesis
    by (simp add: call_def)
next
  case (Cons x xs)
  note outer = Cons
  assume accepted: "call K mem f args \<noteq> None"
  show ?thesis
  proof (cases xs)
    case Nil
    with outer accepted have "call1 K f x \<noteq> None"
      by (simp add: call_def)
    then have "\<not> is_view x"
      using call1_view [of x K f] by auto
    then have "owned mem x = x"
      by (cases x) simp_all
    with outer Nil show ?thesis
      by simp
  next
    case (Cons y ys)
    note inner = Cons
    show ?thesis
    proof (cases ys)
      case Nil
      with outer inner accepted have "call2 mem f x y \<noteq> None"
        by (simp add: call_def)
      then have "call2 mem f (owned mem x) (owned mem y) = call2 mem f x y"
        by (rule call2_owned)
      with outer inner Nil show ?thesis
        by (simp add: call_def)
    next
      case (Cons z zs)
      with outer inner accepted show ?thesis
        by (simp add: call_def)
    qed
  qed
qed

text \<open>
  Claim C1, as amended.  The inner product, \<open>cprod\<close>, vector addition and vector subtraction
  have overloads that accept a vector view in one operand position, the left or the right,
  and the matrix-vector product has overloads that accept a matrix view on the left or a
  vector view on the right.  For every memory, every overload that accepts a view returns
  the result of the owning-container overload applied to owned containers holding the
  elements the views refer to.
\<close>

theorem view_overloads:
  "(f \<in> {Cprod, Plus, Minus, Times} \<longrightarrow>
      call K mem f [VecMap m, Vec v] \<noteq> None \<and> call K mem f [Vec v, VecMap m] \<noteq> None)
   \<and> call K mem Times [MatMap mm, Vec v] \<noteq> None
   \<and> call K mem Times [Mat M, VecMap m] \<noteq> None
   \<and> (call K mem f args \<noteq> None \<longrightarrow>
        call K mem f (map (owned mem) args) = call K mem f args)"
  using call2_view [of "VecMap m" "Vec v" mem f] call2_view [of "Vec v" "VecMap m" mem f]
    call_owned [of K mem f args]
  by (auto simp: call_def)

theorem view_overloads_witness:
  "Plus \<in> {Cprod, Plus, Minus, Times}
   \<and> call Inr of_nat Plus [VecMap (VectorMap 3 2), Vec (Vector [1, 2])]
       = Some (Inr (VectorResult (Vector [4, 6])))
   \<and> call Inr of_nat Plus (map (owned of_nat) [VecMap (VectorMap 3 2), Vec (Vector [1, 2])])
       = Some (Inr (VectorResult (Vector [4, 6])))"
proof -
  have c: "call Inr of_nat Plus [VecMap (VectorMap 3 2), Vec (Vector [1, 2])]
       = Some (Inr (VectorResult (Vector [4, 6])))"
    by (simp add: call_def op_add_map_vec_def eig_vec_add_def map_vector_def upt_rec)
  from view_overloads [of Plus Inr of_nat "VectorMap 3 2" "Vector [1, 2]" _ _
      "[VecMap (VectorMap 3 2), Vec (Vector [1, 2])]"] c
  show ?thesis
    by simp
qed

text \<open>
  \<open>cdiv\<close> has no overload with a view, and no function has an overload with views in both
  positions: such calls are rejected, while the same calls on owned containers holding the
  same elements (here the memory holds the number \<open>n\<close> at address \<open>n\<close>) are accepted.
\<close>

theorem view_overloads_counterexample:
  "call Inr of_nat Cdiv [VecMap (VectorMap 4 2), Vec (Vector [1, 2])] = None
   \<and> call Inr of_nat Cdiv [owned of_nat (VecMap (VectorMap 4 2)), Vec (Vector [1, 2])]
       = Some (Inr (VectorResult (Vector [4, 5 / 2])))
   \<and> call Inr of_nat Plus [VecMap (VectorMap 0 2), VecMap (VectorMap 2 2)] = None
   \<and> call Inr of_nat Plus
        [owned of_nat (VecMap (VectorMap 0 2)), owned of_nat (VecMap (VectorMap 2 2))]
       = Some (Inr (VectorResult (Vector [2, 4])))"
  by (simp add: call_def cdiv_def eig_cwiseQuotient_def map_vector_def op_add_vec_vec_def
      eig_vec_add_def upt_rec)

subsection \<open>Effects on the operands\<close>

text \<open>
  Claim C4.  For vectors \<open>a\<close> and \<open>b\<close> of equal length, \<open>a += b\<close> and \<open>a -= b\<close> replace the
  contents of the object \<open>a\<close> by the elementwise sum and difference with \<open>b\<close> (which may be
  the same object), \<open>a *= s\<close> and \<open>a /= s\<close> replace them by every element multiplied and
  divided by the scalar \<open>s\<close>; nothing else in the state changes, and each operator returns
  the reference to the left operand that it was given.
\<close>

theorem compound_assignment:
  fixes st :: "('a::{plus,minus,times,inverse}) state"
  assumes "objects st lhs = Some (VectorObject a)"
  shows "(\<forall>rhs b. fetch st rhs = Some (Vec b) \<and> length (vec_eigen a) = length (vec_eigen b) \<longrightarrow>
        exec_compound st AddAssign lhs rhs =
          Some (Inr (lhs, st\<lparr>objects := (objects st)(lhs \<mapsto>
            VectorObject (Vector (map2 (+) (vec_eigen a) (vec_eigen b))))\<rparr>))
      \<and> exec_compound st SubAssign lhs rhs =
          Some (Inr (lhs, st\<lparr>objects := (objects st)(lhs \<mapsto>
            VectorObject (Vector (map2 (-) (vec_eigen a) (vec_eigen b))))\<rparr>)))
    \<and> (\<forall>s. exec_compound st MulAssign lhs (Immediate (Scalar s)) =
          Some (Inr (lhs, st\<lparr>objects := (objects st)(lhs \<mapsto>
            VectorObject (Vector (map (\<lambda>x. x * s) (vec_eigen a))))\<rparr>))
      \<and> exec_compound st DivAssign lhs (Immediate (Scalar s)) =
          Some (Inr (lhs, st\<lparr>objects := (objects st)(lhs \<mapsto>
            VectorObject (Vector (map (\<lambda>x. x / s) (vec_eigen a))))\<rparr>)))"
  using assms
  by (simp add: exec_compound_def op_add_assign_def op_sub_assign_def op_mul_assign_def
      op_div_assign_def eig_vec_add_def eig_vec_sub_def eig_vec_scale_def eig_vec_div_def)

theorem compound_assignment_witness:
  "exec_compound
     \<lparr>objects = [0 \<mapsto> VectorObject (Vector [1, 2, 3 :: real]),
                 1 \<mapsto> VectorObject (Vector [4, 5, 6])],
      memory = of_nat\<rparr> AddAssign 0 (Ref 1)
    = Some (Inr (0,
     \<lparr>objects = [0 \<mapsto> VectorObject (Vector [5, 7, 9]), 1 \<mapsto> VectorObject (Vector [4, 5, 6])],
      memory = of_nat\<rparr>))
   \<and> exec_compound
     \<lparr>objects = [0 \<mapsto> VectorObject (Vector [1, 2, 3 :: real]),
                 1 \<mapsto> VectorObject (Vector [4, 5, 6])],
      memory = of_nat\<rparr> DivAssign 0 (Immediate (Scalar 2))
    = Some (Inr (0,
     \<lparr>objects = [0 \<mapsto> VectorObject (Vector [1 / 2, 1, 3 / 2]),
                 1 \<mapsto> VectorObject (Vector [4, 5, 6])],
      memory = of_nat\<rparr>))"
proof -
  let ?st = "\<lparr>objects = [0 \<mapsto> VectorObject (Vector [1, 2, 3 :: real]),
                          1 \<mapsto> VectorObject (Vector [4, 5, 6])],
             memory = of_nat\<rparr>"
  have a: "objects ?st 0 = Some (VectorObject (Vector [1, 2, 3]))"
    by simp
  have b: "fetch ?st (Ref 1) = Some (Vec (Vector [4, 5, 6]))
      \<and> length (vec_eigen (Vector [1, 2, 3 :: real])) = length (vec_eigen (Vector [4, 5, 6 :: real]))"
    by simp
  from compound_assignment [OF a] b
  have "exec_compound ?st AddAssign 0 (Ref 1) =
          Some (Inr (0, ?st\<lparr>objects := (objects ?st)(0 \<mapsto>
            VectorObject (Vector (map2 (+) (vec_eigen (Vector [1, 2, 3 :: real]))
              (vec_eigen (Vector [4, 5, 6 :: real])))))\<rparr>))"
    and "exec_compound ?st DivAssign 0 (Immediate (Scalar 2)) =
          Some (Inr (0, ?st\<lparr>objects := (objects ?st)(0 \<mapsto>
            VectorObject (Vector (map (\<lambda>x. x / 2) (vec_eigen (Vector [1, 2, 3 :: real])))))\<rparr>))"
    by blast+
  then show ?thesis
    by (simp add: fun_upd_twist)
qed

subsection \<open>Failures\<close>

lemma map_sum_Inl_iff: "map_sum id g x = Inl e \<longleftrightarrow> x = Inl e"
  by (cases x) simp_all

text \<open>
  Claim C8.  No operation of the layer adds a check, a guard or an error of its own.  An
  operation, with owned operands or with a view, reports an error exactly when the
  engine kernel it forwards to reports that error on the same operands (a dimension
  mismatch); \<open>inverse\<close> returns what the engine's inversion returns, whatever that is on a
  singular operand; \<open>cdiv\<close>, the divisions by a scalar and \<open>normalize<_l>\<close> hand every
  divisor, a zero divisor and a zero norm included, to the element type's own division;
  the default \<open>normalize\<close> is the engine's; \<open>transpose\<close>, the norms, \<open>sum\<close>, \<open>unary\<close> and the
  products with a scalar return what their engine kernel returns, and these kernels
  report no error.
\<close>

theorem pass_through:
  fixes a b :: "('a::semiring_0) vector" and A B :: "'a matrix" and mem :: "'a memory"
    and c d :: "('b::{zero,plus,minus,times,inverse}) vector" and C D :: "'b matrix"
    and cmem :: "'b memory"
    and v :: "('c::{plus,zero,times,inverse,ord}) vector" and M :: "'c matrix"
  shows
    "(cdiv c d = Inl e \<longleftrightarrow> eig_cwiseQuotient (vec_eigen c) (vec_eigen d) = Inl e)
   \<and> (cprod c d = Inl e \<longleftrightarrow> eig_cwiseProduct (vec_eigen c) (vec_eigen d) = Inl e)
   \<and> (op_add_vec_vec c d = Inl e \<longleftrightarrow> eig_vec_add (vec_eigen c) (vec_eigen d) = Inl e)
   \<and> (op_add_assign c d = Inl e \<longleftrightarrow> eig_vec_add (vec_eigen c) (vec_eigen d) = Inl e)
   \<and> (op_sub_assign c d = Inl e \<longleftrightarrow> eig_vec_sub (vec_eigen c) (vec_eigen d) = Inl e)
   \<and> (op_sub_vec_vec c d = Inl e \<longleftrightarrow> eig_vec_sub (vec_eigen c) (vec_eigen d) = Inl e)
   \<and> (op_mul_vec_vec a b = Inl e \<longleftrightarrow>
        eig_mat_vec (eig_vec_transpose (vec_eigen a)) (vec_eigen b) = Inl e)
   \<and> (op_mul_mat_vec A b = Inl e \<longleftrightarrow> eig_mat_vec (mat_eigen A) (vec_eigen b) = Inl e)
   \<and> (op_mul_vec_mat a A = Inl e \<longleftrightarrow>
        eig_mat_mat (eig_vec_transpose (vec_eigen a)) (mat_eigen A) = Inl e)
   \<and> (op_mul_mat_mat A B = Inl e \<longleftrightarrow> eig_mat_mat (mat_eigen A) (mat_eigen B) = Inl e)
   \<and> (op_add_mat_mat C D = Inl e \<longleftrightarrow> eig_mat_add (mat_eigen C) (mat_eigen D) = Inl e)
   \<and> (op_sub_mat_mat C D = Inl e \<longleftrightarrow> eig_mat_sub (mat_eigen C) (mat_eigen D) = Inl e)
   \<and> (inverse_m K A = Inl e \<longleftrightarrow> K (mat_eigen A) = Inl e)
   \<and> (inverse_m K A = Inr R \<longleftrightarrow> K (mat_eigen A) = Inr (mat_eigen R))
   \<and> (length (vec_eigen c) = length (vec_eigen d) \<longrightarrow>
        cdiv c d = Inr (Vector (map2 (/) (vec_eigen c) (vec_eigen d))))
   \<and> op_div_vec_scalar c s = Vector (map (\<lambda>x. x / s) (vec_eigen c))
   \<and> op_div_assign c s = Vector (map (\<lambda>x. x / s) (vec_eigen c))
   \<and> op_div_mat_scalar C s =
        EigenMatrix (nrows (mat_eigen C)) (ncols (mat_eigen C))
          (map (map (\<lambda>x. x / s)) (rowlist (mat_eigen C)))
   \<and> (op_mul_map_vec mem m b = Inl e \<longleftrightarrow>
        eig_mat_vec (eig_vec_transpose (map_vector mem m)) (vec_eigen b) = Inl e)
   \<and> (op_mul_vec_map mem a m = Inl e \<longleftrightarrow>
        eig_mat_vec (eig_vec_transpose (vec_eigen a)) (map_vector mem m) = Inl e)
   \<and> (cprod_map_vec cmem m d = Inl e \<longleftrightarrow>
        eig_cwiseProduct (map_vector cmem m) (vec_eigen d) = Inl e)
   \<and> (cprod_vec_map cmem c m = Inl e \<longleftrightarrow>
        eig_cwiseProduct (vec_eigen c) (map_vector cmem m) = Inl e)
   \<and> (op_add_map_vec cmem m d = Inl e \<longleftrightarrow>
        eig_vec_add (map_vector cmem m) (vec_eigen d) = Inl e)
   \<and> (op_add_vec_map cmem c m = Inl e \<longleftrightarrow>
        eig_vec_add (vec_eigen c) (map_vector cmem m) = Inl e)
   \<and> (op_sub_map_vec cmem m d = Inl e \<longleftrightarrow>
        eig_vec_sub (map_vector cmem m) (vec_eigen d) = Inl e)
   \<and> (op_sub_vec_map cmem c m = Inl e \<longleftrightarrow>
        eig_vec_sub (vec_eigen c) (map_vector cmem m) = Inl e)
   \<and> (op_mul_matmap_vec mem mm b = Inl e \<longleftrightarrow>
        eig_mat_vec (map_matrix mem mm) (vec_eigen b) = Inl e)
   \<and> (op_mul_mat_map mem A m = Inl e \<longleftrightarrow>
        eig_mat_vec (mat_eigen A) (map_vector mem m) = Inl e)
   \<and> normalize_l lp v = Vector (map (\<lambda>x. x / lp (vec_eigen v)) (vec_eigen v))
   \<and> normalize_v sq v = Vector (eig_normalize sq (vec_eigen v))
   \<and> transpose_m C = Matrix (eig_transpose (mat_eigen C))
   \<and> norm_l lp v = lp (vec_eigen v)
   \<and> norm_v sq v = eig_norm sq (vec_eigen v)
   \<and> norm_m sq M = eig_mat_norm sq (mat_eigen M)
   \<and> sum_v c = eig_sum (vec_eigen c)
   \<and> unary c f = Vector (map f (vec_eigen c))
   \<and> op_mul_vec_scalar c s = Vector (map (\<lambda>x. x * s) (vec_eigen c))
   \<and> op_mul_scalar_vec s c = Vector (map (\<lambda>x. s * x) (vec_eigen c))
   \<and> op_mul_assign c s = Vector (map (\<lambda>x. x * s) (vec_eigen c))
   \<and> op_mul_mat_scalar C s = eig_mat_scale (mat_eigen C) s
   \<and> op_mul_scalar_mat s C = eig_scale_mat s (mat_eigen C)"
  by (cases R; cases "K (mat_eigen A)")
   (auto simp add: cdiv_def cprod_def op_add_vec_vec_def op_sub_vec_vec_def op_mul_vec_vec_def
      op_mul_mat_vec_def op_mul_mat_mat_def op_add_mat_mat_def op_sub_mat_mat_def inverse_m_def
      op_div_vec_scalar_def op_div_mat_scalar_def eig_vec_div_def eig_mat_div_def
      op_add_assign_def op_sub_assign_def op_div_assign_def op_mul_vec_mat_def
      op_mul_map_vec_def op_mul_vec_map_def cprod_map_vec_def cprod_vec_map_def
      op_add_map_vec_def op_add_vec_map_def op_sub_map_vec_def op_sub_vec_map_def
      op_mul_matmap_vec_def op_mul_mat_map_def normalize_l_def normalize_v_def norm_l_def
      eig_cwiseQuotient_def map_sum_Inl_iff transpose_m_def norm_v_def norm_m_def sum_v_def
      unary_def eig_unaryExpr_def op_mul_vec_scalar_def op_mul_scalar_vec_def op_mul_assign_def
      eig_vec_scale_def eig_scale_vec_def op_mul_mat_scalar_def op_mul_scalar_mat_def)

theorem pass_through_witness:
  "length (vec_eigen (Vector [Fin 1, Fin 2])) = length (vec_eigen (Vector [Fin 0, NegZero]))
   \<and> cdiv (Vector [Fin 1, Fin 2]) (Vector [Fin 0, NegZero]) = Inr (Vector [PInf, NInf])
   \<and> eig_cwiseQuotient [Fin 1, Fin 2] [Fin 2] = Inl DimensionMismatch
   \<and> cdiv (Vector [Fin 1, Fin 2]) (Vector [Fin 2]) = Inl DimensionMismatch
   \<and> op_div_vec_scalar (Vector [Fin 1, NegZero]) (Fin 0) = Vector [PInf, NaN]
   \<and> normalize_l (eig_norm double_sqrt) (Vector [Fin 0]) = Vector [NaN]
   \<and> inverse_m Inr (Matrix (EigenMatrix 1 2 [[1, 2 :: real]]))
       = Inr (Matrix (EigenMatrix 1 2 [[1, 2]]))"
proof -
  have m: "eig_cwiseQuotient (vec_eigen (Vector [Fin 1, Fin 2])) (vec_eigen (Vector [Fin 2]))
      = Inl DimensionMismatch"
    by (simp add: eig_cwiseQuotient_def)
  have q: "Fin 1 / Fin 0 = PInf" "Fin 2 / NegZero = NInf" "NegZero / Fin 0 = NaN"
    "Fin 0 / Fin 0 = NaN" "double_sqrt (Fin 0 * Fin 0) = Fin 0"
    by (simp_all add: divide_double_def double_div_def times_double_def double_mul_def
        signed_inf_def signed_zero_def round_double_def)
  note pt = pass_through [where ?'a = real and ?'b = double and ?'c = double]
  from pt [of "Vector [Fin 1, Fin 2]" "Vector [Fin 0, NegZero]"] q
  have 1: "cdiv (Vector [Fin 1, Fin 2]) (Vector [Fin 0, NegZero]) = Inr (Vector [PInf, NInf])"
    by simp
  from pt [of "Vector [Fin 1, Fin 2]" "Vector [Fin 2]" DimensionMismatch] m
  have 2: "cdiv (Vector [Fin 1, Fin 2]) (Vector [Fin 2]) = Inl DimensionMismatch"
    by simp
  from pt [of "Vector [Fin 1, NegZero]" _ _ _ _ _ _ _ _ _ _ "Fin 0"] q
  have 3: "op_div_vec_scalar (Vector [Fin 1, NegZero]) (Fin 0) = Vector [PInf, NaN]"
    by simp
  from pt [where lp = "eig_norm double_sqrt" and v = "Vector [Fin 0]"] q
  have 4: "normalize_l (eig_norm double_sqrt) (Vector [Fin 0]) = Vector [NaN]"
    by (simp add: eig_norm_def eig_squaredNorm_def eig_sum_def)
  from pt [where A = "Matrix (EigenMatrix 1 2 [[1, 2 :: real]])" and K = Inr
      and R = "Matrix (EigenMatrix 1 2 [[1, 2 :: real]])"]
  have 5: "inverse_m Inr (Matrix (EigenMatrix 1 2 [[1, 2 :: real]]))
       = Inr (Matrix (EigenMatrix 1 2 [[1, 2]]))"
    by simp
  from 1 2 3 4 5 m show ?thesis
    by simp
qed

end
